theory Spec2Isabelle
  imports Main "HOL-Library.Monad_Syntax"
begin

section \<open>Values, exceptions and responses\<close>

text \<open>
  The values that travel through \<^verbatim>\<open>main.py\<close>: the scraper hands back Python dicts of
  JSON-like values, the handlers return such a dict or a \<^verbatim>\<open>Response\<close> object, or raise.
  A dict is an association list in insertion order; a lookup takes the first entry of a
  key.
\<close>

datatype pyval =
    PNone
  | PBool bool
  | PInt int
  | PStr string
  | PList "pyval list"
  | PDict "(string \<times> pyval) list"

type_synonym dict = "(string \<times> pyval) list"

text \<open>
  The exceptions of the layer: \<^verbatim>\<open>HTTPException(status_code, detail)\<close>, the
  \<^verbatim>\<open>KeyError\<close> of a subscript on a missing key, the rejection of a request whose
  query parameter fails the declared annotation, the rejection of a return value that
  fails the declared \<^verbatim>\<open>response_model\<close>, and \<open>Error\<close> for an exception of any other
  class, named by the class, that an imported module raises.
\<close>

datatype exn =
    HTTPException nat pyval
  | KeyError string
  | RequestValidationError string
  | ResponseValidationError
  | Error string

record Response =
  content :: string
  media_type :: string
  headers :: "(string \<times> string) list"

text \<open>
  What a route answers with: a dict (sent as JSON), a \<^verbatim>\<open>Response\<close> object, one of the
  pages that the framework itself serves, or a redirect to another path.
\<close>

datatype retval =
    Data dict
  | Resp Response
  | Page string
  | Redirect string

text \<open>\<^verbatim>\<open>key in data\<close> and \<^verbatim>\<open>data[key]\<close> of a Python dict.\<close>

definition contains :: "dict \<Rightarrow> string \<Rightarrow> bool" where
  "contains data key = (map_of data key \<noteq> None)"

definition getitem :: "dict \<Rightarrow> string \<Rightarrow> exn + pyval" where
  "getitem data key = (case map_of data key of None \<Rightarrow> Inl (KeyError key) | Some v \<Rightarrow> Inr v)"

section \<open>The imported modules and the world they act on\<close>

text \<open>
  \<^verbatim>\<open>scraper\<close>, \<^verbatim>\<open>svg\<close> and \<^verbatim>\<open>docs\<close> are imported by \<^verbatim>\<open>main.py\<close>
  and are not part of the file: their functions are parameters. A scraper function reads
  and changes a state \<open>'s\<close> that the layer never inspects (browser, cache, remote site);
  awaiting it either hands back a dict (\<open>Inr\<close>) or raises (\<open>Inl\<close>).
  \<^verbatim>\<open>close_browser\<close> returns nothing, or raises. \<open>coerce\<close> is what the
  validation library makes, in its lax mode, of a value that is not of the type of the
  field it stands in (a numeric string or a boolean in an integer field, say): the
  conversion to a string and the conversion to an integer, each failing with \<open>None\<close>.
\<close>

record lax =
  lax_str :: "pyval \<Rightarrow> string option"
  lax_int :: "pyval \<Rightarrow> int option"

record 's env =
  get_gfg_data :: "string \<Rightarrow> 's \<Rightarrow> (exn + dict) \<times> 's"
  fetch_user_profile :: "string \<Rightarrow> 's \<Rightarrow> (exn + dict) \<times> 's"
  fetch_problem_list :: "string \<Rightarrow> 's \<Rightarrow> (exn + dict) \<times> 's"
  close_browser :: "'s \<Rightarrow> exn option \<times> 's"
  generate_stats_svg :: "dict \<Rightarrow> string"
  get_custom_docs_html :: "string"
  coerce :: "lax"

text \<open>
  Every call that leaves \<^verbatim>\<open>main.py\<close> for the scraper is recorded, with its argument,
  so that which calls a handler makes, and how often, can be stated.
\<close>

datatype call =
    Call_get_gfg_data string
  | Call_fetch_user_profile string
  | Call_fetch_problem_list string
  | Call_close_browser

record 's world =
  remote :: 's
  calls :: "call list"

definition await_get_gfg_data ::
  "'s env \<Rightarrow> string \<Rightarrow> 's world \<Rightarrow> (exn + dict) \<times> 's world" where
  "await_get_gfg_data e userName w =
     (let r = get_gfg_data e userName (remote w)
      in (fst r, \<lparr>remote = snd r, calls = calls w @ [Call_get_gfg_data userName]\<rparr>))"

definition await_fetch_user_profile ::
  "'s env \<Rightarrow> string \<Rightarrow> 's world \<Rightarrow> (exn + dict) \<times> 's world" where
  "await_fetch_user_profile e userName w =
     (let r = fetch_user_profile e userName (remote w)
      in (fst r, \<lparr>remote = snd r, calls = calls w @ [Call_fetch_user_profile userName]\<rparr>))"

definition await_fetch_problem_list ::
  "'s env \<Rightarrow> string \<Rightarrow> 's world \<Rightarrow> (exn + dict) \<times> 's world" where
  "await_fetch_problem_list e userName w =
     (let r = fetch_problem_list e userName (remote w)
      in (fst r, \<lparr>remote = snd r, calls = calls w @ [Call_fetch_problem_list userName]\<rparr>))"

definition await_close_browser :: "'s env \<Rightarrow> 's world \<Rightarrow> exn option \<times> 's world" where
  "await_close_browser e w =
     (let r = close_browser e (remote w)
      in (fst r, \<lparr>remote = snd r, calls = calls w @ [Call_close_browser]\<rparr>))"

section \<open>The endpoints\<close>

text \<open>\<^verbatim>\<open>health_check\<close>: the literal dict of the liveness route.\<close>

definition health_check :: "dict" where
  "health_check = [(''status'', PStr ''ok''), (''service'', PStr ''GFG Scraper'')]"

definition custom_docs :: "'s env \<Rightarrow> Response" where
  "custom_docs e =
     \<lparr>content = get_custom_docs_html e, media_type = ''text/html'', headers = []\<rparr>"

text \<open>
  \<^verbatim>\<open>HTTPException(status_code=404, detail=d)\<close>: the constructor puts the phrase of the
  status, \<^verbatim>\<open>Not Found\<close> for 404, in the place of a detail that is \<^verbatim>\<open>None\<close>.
\<close>

definition not_found_exception :: "pyval \<Rightarrow> exn" where
  "not_found_exception d = HTTPException 404 (if d = PNone then PStr ''Not Found'' else d)"

text \<open>
  The raise of the three data handlers and of the card:
  \<^verbatim>\<open>raise HTTPException(status_code=404, detail=data["error"])\<close>. The subscript is
  evaluated first and can itself raise.
\<close>

definition raise_not_found :: "dict \<Rightarrow> exn" where
  "raise_not_found data =
     (case getitem data ''error'' of Inl ke \<Rightarrow> ke | Inr d \<Rightarrow> not_found_exception d)"

text \<open>
  The four handlers that call the scraper. None has an \<^verbatim>\<open>except\<close> clause: an
  exception of the awaited call leaves the handler as it is.
\<close>

definition get_user_profile_endpoint ::
  "'s env \<Rightarrow> string \<Rightarrow> 's world \<Rightarrow> (exn + retval) \<times> 's world" where
  "get_user_profile_endpoint e userName w =
     (let r = await_fetch_user_profile e userName w
      in case fst r of
           Inl raised \<Rightarrow> (Inl raised, snd r)
         | Inr data \<Rightarrow>
             if contains data ''error'' then (Inl (raise_not_found data), snd r)
             else (Inr (Data data), snd r))"

text \<open>The response that both SVG paths build from the rendered card.\<close>

definition svg_response :: "string \<Rightarrow> Response" where
  "svg_response svg_content =
     \<lparr>content = svg_content, media_type = ''image/svg+xml'',
      headers = [(''Cache-Control'', ''public, max-age=14400'')]\<rparr>"

definition get_user_stats_endpoint ::
  "'s env \<Rightarrow> string \<Rightarrow> string \<Rightarrow> 's world \<Rightarrow> (exn + retval) \<times> 's world" where
  "get_user_stats_endpoint e userName format w =
     (let r = await_get_gfg_data e userName w
      in case fst r of
           Inl raised \<Rightarrow> (Inl raised, snd r)
         | Inr data \<Rightarrow>
             if contains data ''error'' then (Inl (raise_not_found data), snd r)
             else if format = ''svg''
               then (Inr (Resp (svg_response (generate_stats_svg e data))), snd r)
             else (Inr (Data data), snd r))"

definition get_solved_problems_endpoint ::
  "'s env \<Rightarrow> string \<Rightarrow> 's world \<Rightarrow> (exn + retval) \<times> 's world" where
  "get_solved_problems_endpoint e userName w =
     (let r = await_fetch_problem_list e userName w
      in case fst r of
           Inl raised \<Rightarrow> (Inl raised, snd r)
         | Inr data \<Rightarrow>
             if contains data ''error'' then (Inl (raise_not_found data), snd r)
             else (Inr (Data data), snd r))"

definition get_stats_card ::
  "'s env \<Rightarrow> string \<Rightarrow> 's world \<Rightarrow> (exn + retval) \<times> 's world" where
  "get_stats_card e userName w =
     (let r = await_get_gfg_data e userName w
      in case fst r of
           Inl raised \<Rightarrow> (Inl raised, snd r)
         | Inr data \<Rightarrow>
             if contains data ''error'' then (Inl (raise_not_found data), snd r)
             else (Inr (Resp (svg_response (generate_stats_svg e data))), snd r))"

section \<open>The response models\<close>

text \<open>
  The four classes derived from \<^verbatim>\<open>BaseModel\<close>, with the declared type of every
  field. A keyword argument that the caller leaves out is \<open>None\<close> here and takes the
  declared default; \<^verbatim>\<open>userName\<close> has none and is always given.
\<close>

definition or_default :: "'a \<Rightarrow> 'a option \<Rightarrow> 'a" where
  "or_default d arg = (case arg of None \<Rightarrow> d | Some v \<Rightarrow> v)"

record UserProfile =
  userName :: string
  fullName :: string
  designation :: string
  codingScore :: int
  problemsSolved :: int
  instituteRank :: int
  articlesPublished :: int
  potdStreak :: int
  longestStreak :: int
  potdsSolved :: int

definition UserProfile_init ::
  "string \<Rightarrow> string option \<Rightarrow> string option \<Rightarrow> int option \<Rightarrow> int option \<Rightarrow> int option \<Rightarrow>
   int option \<Rightarrow> int option \<Rightarrow> int option \<Rightarrow> int option \<Rightarrow> UserProfile" where
  "UserProfile_init un fn dg cs ps ir ap pst ls pds =
     \<lparr>UserProfile.userName = un,
      fullName = or_default [] fn,
      designation = or_default [] dg,
      codingScore = or_default 0 cs,
      problemsSolved = or_default 0 ps,
      instituteRank = or_default 0 ir,
      articlesPublished = or_default 0 ap,
      potdStreak = or_default 0 pst,
      longestStreak = or_default 0 ls,
      potdsSolved = or_default 0 pds\<rparr>"

record UserStats =
  userName :: string
  School :: int
  Basic :: int
  Easy :: int
  Medium :: int
  Hard :: int
  totalProblemsSolved :: int

definition UserStats_init ::
  "string \<Rightarrow> int option \<Rightarrow> int option \<Rightarrow> int option \<Rightarrow> int option \<Rightarrow> int option \<Rightarrow>
   int option \<Rightarrow> UserStats" where
  "UserStats_init un sc ba ea me ha tot =
     \<lparr>UserStats.userName = un,
      School = or_default 0 sc,
      Basic = or_default 0 ba,
      Easy = or_default 0 ea,
      Medium = or_default 0 me,
      Hard = or_default 0 ha,
      totalProblemsSolved = or_default 0 tot\<rparr>"

record Problem =
  question :: string
  questionUrl :: string

record SolvedProblems =
  userName :: string
  problemsByDifficulty :: "(string \<times> int) list"
  Problems :: "(string \<times> Problem list) list"

text \<open>
  The JSON object of a model instance: one member per declared field, under the
  attribute's own name (no field declares an alias), in the order of declaration.
\<close>

definition UserProfile_dump :: "UserProfile \<Rightarrow> dict" where
  "UserProfile_dump p =
     [(''userName'', PStr (UserProfile.userName p)),
      (''fullName'', PStr (fullName p)),
      (''designation'', PStr (designation p)),
      (''codingScore'', PInt (codingScore p)),
      (''problemsSolved'', PInt (problemsSolved p)),
      (''instituteRank'', PInt (instituteRank p)),
      (''articlesPublished'', PInt (articlesPublished p)),
      (''potdStreak'', PInt (potdStreak p)),
      (''longestStreak'', PInt (longestStreak p)),
      (''potdsSolved'', PInt (potdsSolved p))]"

definition UserStats_dump :: "UserStats \<Rightarrow> dict" where
  "UserStats_dump s =
     [(''userName'', PStr (UserStats.userName s)),
      (''School'', PInt (School s)),
      (''Basic'', PInt (Basic s)),
      (''Easy'', PInt (Easy s)),
      (''Medium'', PInt (Medium s)),
      (''Hard'', PInt (Hard s)),
      (''totalProblemsSolved'', PInt (totalProblemsSolved s))]"

definition Problem_dump :: "Problem \<Rightarrow> dict" where
  "Problem_dump p =
     [(''question'', PStr (question p)),
      (''questionUrl'', PStr (questionUrl p))]"

definition SolvedProblems_dump :: "SolvedProblems \<Rightarrow> dict" where
  "SolvedProblems_dump sp =
     [(''userName'', PStr (SolvedProblems.userName sp)),
      (''problemsByDifficulty'',
         PDict (map (\<lambda>kv. (fst kv, PInt (snd kv))) (problemsByDifficulty sp))),
      (''Problems'',
         PDict (map (\<lambda>kv. (fst kv, PList (map (\<lambda>p. PDict (Problem_dump p)) (snd kv))))
                  (Problems sp)))]"

section \<open>Validation of a returned dict against a response model\<close>

text \<open>
  A route declared with \<^verbatim>\<open>response_model=M\<close> does not send the dict that its handler
  returns: the dict is validated against \<open>M\<close> and the validated instance is sent.
  A field takes a value of its declared type as it is: a string in a \<^verbatim>\<open>str\<close> field,
  an integer in an \<^verbatim>\<open>int\<close> field; any other value goes through the library's
  conversion. A \<^verbatim>\<open>Dict\<close> field takes a dict, a \<^verbatim>\<open>List\<close> field a list, a
  model-typed item a dict that validates against the model. A key the model does not
  declare is dropped, a declared field the dict lacks takes its default, and one without a
  default makes the validation fail, as any value that does not convert does.
\<close>

definition as_str :: "lax \<Rightarrow> pyval \<Rightarrow> string option" where
  "as_str lx v = (case v of PStr s \<Rightarrow> Some s | _ \<Rightarrow> lax_str lx v)"

definition as_int :: "lax \<Rightarrow> pyval \<Rightarrow> int option" where
  "as_int lx v = (case v of PInt n \<Rightarrow> Some n | _ \<Rightarrow> lax_int lx v)"

definition as_list :: "(pyval \<Rightarrow> 'a option) \<Rightarrow> pyval \<Rightarrow> 'a list option" where
  "as_list conv v = (case v of PList xs \<Rightarrow> those (map conv xs) | _ \<Rightarrow> None)"

definition as_dict :: "(pyval \<Rightarrow> 'a option) \<Rightarrow> pyval \<Rightarrow> (string \<times> 'a) list option" where
  "as_dict conv v =
     (case v of
        PDict kvs \<Rightarrow> those (map (\<lambda>kv. map_option (Pair (fst kv)) (conv (snd kv))) kvs)
      | _ \<Rightarrow> None)"

text \<open>
  A field without a default (\<open>required\<close>) and one with a default (\<open>optional\<close>, where
  \<open>Some None\<close> says that the dict has no such key and the default applies).
\<close>

definition required :: "(pyval \<Rightarrow> 'a option) \<Rightarrow> dict \<Rightarrow> string \<Rightarrow> 'a option" where
  "required conv data key = (case map_of data key of None \<Rightarrow> None | Some v \<Rightarrow> conv v)"

definition optional :: "(pyval \<Rightarrow> 'a option) \<Rightarrow> dict \<Rightarrow> string \<Rightarrow> 'a option option" where
  "optional conv data key =
     (case map_of data key of None \<Rightarrow> Some None | Some v \<Rightarrow> map_option Some (conv v))"

definition UserProfile_validate :: "lax \<Rightarrow> dict \<Rightarrow> UserProfile option" where
  "UserProfile_validate lx data =
     do {
       un \<leftarrow> required (as_str lx) data ''userName'';
       fn \<leftarrow> optional (as_str lx) data ''fullName'';
       dg \<leftarrow> optional (as_str lx) data ''designation'';
       cs \<leftarrow> optional (as_int lx) data ''codingScore'';
       ps \<leftarrow> optional (as_int lx) data ''problemsSolved'';
       ir \<leftarrow> optional (as_int lx) data ''instituteRank'';
       ap \<leftarrow> optional (as_int lx) data ''articlesPublished'';
       pst \<leftarrow> optional (as_int lx) data ''potdStreak'';
       ls \<leftarrow> optional (as_int lx) data ''longestStreak'';
       pds \<leftarrow> optional (as_int lx) data ''potdsSolved'';
       Some (UserProfile_init un fn dg cs ps ir ap pst ls pds)
     }"

definition Problem_validate :: "lax \<Rightarrow> pyval \<Rightarrow> Problem option" where
  "Problem_validate lx v =
     (case v of
        PDict d \<Rightarrow>
          do {
            q \<leftarrow> required (as_str lx) d ''question'';
            qu \<leftarrow> required (as_str lx) d ''questionUrl'';
            Some \<lparr>question = q, questionUrl = qu\<rparr>
          }
      | _ \<Rightarrow> None)"

definition SolvedProblems_validate :: "lax \<Rightarrow> dict \<Rightarrow> SolvedProblems option" where
  "SolvedProblems_validate lx data =
     do {
       un \<leftarrow> required (as_str lx) data ''userName'';
       pbd \<leftarrow> required (as_dict (as_int lx)) data ''problemsByDifficulty'';
       prs \<leftarrow> required (as_dict (as_list (Problem_validate lx))) data ''Problems'';
       Some \<lparr>SolvedProblems.userName = un, problemsByDifficulty = pbd, Problems = prs\<rparr>
     }"

text \<open>
  What the route does with the outcome of its handler: an exception and a
  \<^verbatim>\<open>Response\<close> object pass, a dict is replaced by the JSON object of the validated
  instance, or by \<^verbatim>\<open>ResponseValidationError\<close> when it does not validate.
\<close>

definition response_model :: "(dict \<Rightarrow> dict option) \<Rightarrow> exn + retval \<Rightarrow> exn + retval" where
  "response_model validated out =
     (case out of
        Inr (Data data) \<Rightarrow>
          (case validated data of
             None \<Rightarrow> Inl ResponseValidationError
           | Some body \<Rightarrow> Inr (Data body))
      | _ \<Rightarrow> out)"

section \<open>The query parameter and the routes\<close>

text \<open>
  The signature of the stats handler declares
  \<^verbatim>\<open>format: Literal["json", "svg"] = Query("json")\<close>: the raw query value
  (\<open>None\<close> when the request has none) is checked against the literals before the
  handler is called, and the default stands in for a missing one.
\<close>

definition format_literals :: "string list" where
  "format_literals = [''json'', ''svg'']"

definition format_default :: "string" where
  "format_default = ''json''"

definition query_format :: "string option \<Rightarrow> exn + string" where
  "query_format q =
     (case q of
        None \<Rightarrow> Inr format_default
      | Some v \<Rightarrow> if v \<in> set format_literals then Inr v
                  else Inl (RequestValidationError ''format''))"

text \<open>
  What a \<^verbatim>\<open>GET\<close> request can reach: the six routes that \<^verbatim>\<open>main.py\<close> registers on
  \<^verbatim>\<open>app\<close>, each with the arguments its handler takes from the request; the pages that
  \<^verbatim>\<open>FastAPI(...)\<close> registers itself when, as here, it is created without
  \<^verbatim>\<open>docs_url\<close>, \<^verbatim>\<open>redoc_url\<close> or \<^verbatim>\<open>openapi_url\<close>; the redirect of a path that
  matches only with its trailing slashes changed; and no route at all.
\<close>

datatype request =
    Get_root
  | Get_docs
  | Get_profile string
  | Get_stats string "string option"
  | Get_problems string
  | Get_card string
  | Get_builtin string
  | Redirect_slash string
  | No_route

text \<open>
  A path parameter \<^verbatim>\<open>{userName}\<close> matches one or more characters other than the slash.
\<close>

definition path_param :: "string \<Rightarrow> bool" where
  "path_param s = (s \<noteq> [] \<and> CHR ''/'' \<notin> set s)"

fun strip_prefix :: "string \<Rightarrow> string \<Rightarrow> string option" where
  "strip_prefix [] s = Some s"
| "strip_prefix (c # cs) [] = None"
| "strip_prefix (c # cs) (d # ds) = (if c = d then strip_prefix cs ds else None)"

definition match_param :: "string \<Rightarrow> string \<Rightarrow> string option" where
  "match_param pre path =
     (case strip_prefix pre path of
        None \<Rightarrow> None
      | Some rest \<Rightarrow> if path_param rest then Some rest else None)"

text \<open>
  A route without a parameter matches its own path and, as the pattern ends with the
  anchor \<^verbatim>\<open>$\<close>, that path followed by one line feed.
\<close>

definition fixed_path :: "string \<Rightarrow> string \<Rightarrow> bool" where
  "fixed_path route path = (path = route \<or> path = route @ [CHR 0x0A])"

text \<open>
  The routes are tried in the order of their registration and the first that matches the
  whole path takes the request: the four of the framework, registered when \<^verbatim>\<open>app\<close>
  is created, then the six of \<^verbatim>\<open>main.py\<close> from top to bottom.
\<close>

definition first_match :: "string \<Rightarrow> string option \<Rightarrow> request option" where
  "first_match path q =
     (if fixed_path ''/openapi.json'' path then Some (Get_builtin ''/openapi.json'')
      else if fixed_path ''/docs'' path then Some (Get_builtin ''/docs'')
      else if fixed_path ''/docs/oauth2-redirect'' path
        then Some (Get_builtin ''/docs/oauth2-redirect'')
      else if fixed_path ''/redoc'' path then Some (Get_builtin ''/redoc'')
      else if fixed_path ''/'' path then Some Get_root
      else if fixed_path ''/docs'' path then Some Get_docs
      else case match_param ''/profile/'' path of
        Some name \<Rightarrow> Some (Get_profile name)
      | None \<Rightarrow>
      case match_param ''/stats/'' path of
        Some name \<Rightarrow> Some (Get_stats name q)
      | None \<Rightarrow>
      case match_param ''/problems/'' path of
        Some name \<Rightarrow> Some (Get_problems name)
      | None \<Rightarrow>
      case match_param ''/'' path of
        Some name \<Rightarrow> Some (Get_card name)
      | None \<Rightarrow> None)"

definition rstrip_slash :: "string \<Rightarrow> string" where
  "rstrip_slash path = rev (dropWhile (\<lambda>c. c = CHR ''/'') (rev path))"

text \<open>
  A path that no route matches is tried once more without its trailing slashes, or with
  one added when it has none; a match there is answered with a redirect.
\<close>

definition route_of :: "string \<Rightarrow> string option \<Rightarrow> request" where
  "route_of path q =
     (case first_match path q of
        Some rq \<Rightarrow> rq
      | None \<Rightarrow>
          if path \<noteq> ''/'' then
            (let other = (if path \<noteq> [] \<and> last path = CHR ''/'' then rstrip_slash path
                          else path @ ''/'')
             in if first_match other q \<noteq> None then Redirect_slash other else No_route)
          else No_route)"

text \<open>
  The answer of each route. The profile and the problems route declare a
  \<^verbatim>\<open>response_model\<close>; the stats route and the card declare none.
\<close>

fun app_get :: "'s env \<Rightarrow> request \<Rightarrow> 's world \<Rightarrow> (exn + retval) \<times> 's world" where
  "app_get e Get_root w = (Inr (Data health_check), w)"
| "app_get e Get_docs w = (Inr (Resp (custom_docs e)), w)"
| "app_get e (Get_profile name) w =
     (let r = get_user_profile_endpoint e name w
      in (response_model
            (\<lambda>data. map_option UserProfile_dump (UserProfile_validate (coerce e) data))
            (fst r),
          snd r))"
| "app_get e (Get_stats name q) w =
     (case query_format q of
        Inl err \<Rightarrow> (Inl err, w)
      | Inr format \<Rightarrow> get_user_stats_endpoint e name format w)"
| "app_get e (Get_problems name) w =
     (let r = get_solved_problems_endpoint e name w
      in (response_model
            (\<lambda>data. map_option SolvedProblems_dump
                      (SolvedProblems_validate (coerce e) data))
            (fst r),
          snd r))"
| "app_get e (Get_card name) w = get_stats_card e name w"
| "app_get e (Get_builtin path) w = (Inr (Page path), w)"
| "app_get e (Redirect_slash path) w = (Inr (Redirect path), w)"
| "app_get e No_route w = (Inl (HTTPException 404 (PStr ''Not Found'')), w)"

text \<open>A \<^verbatim>\<open>GET\<close> request by its path and the raw value of its \<^verbatim>\<open>format\<close> parameter.\<close>

definition http_get ::
  "'s env \<Rightarrow> string \<Rightarrow> string option \<Rightarrow> 's world \<Rightarrow> (exn + retval) \<times> 's world" where
  "http_get e path q w = app_get e (route_of path q) w"

text \<open>
  The status code that the client sees: that of an \<^verbatim>\<open>HTTPException\<close>, 422 for a
  rejected request, 500 for every other exception that nothing has caught, 307 for the
  redirect and 200 for a value returned.
\<close>

definition status_code :: "exn + retval \<Rightarrow> nat" where
  "status_code out =
     (case out of
        Inl (HTTPException s d) \<Rightarrow> s
      | Inl (RequestValidationError p) \<Rightarrow> 422
      | Inl x \<Rightarrow> 500
      | Inr (Redirect p) \<Rightarrow> 307
      | Inr v \<Rightarrow> 200)"

section \<open>Lifecycle\<close>

text \<open>
  \<^verbatim>\<open>lifespan\<close>: \<^verbatim>\<open>try: yield finally: await close_browser()\<close>. The body that runs
  at the \<^verbatim>\<open>yield\<close> ends normally (\<open>None\<close>) or with an exception; the
  \<^verbatim>\<open>finally\<close> clause runs in both cases, and the exception of the body goes on unless
  \<^verbatim>\<open>close_browser\<close> raises one of its own, which then takes its place.
\<close>

definition lifespan ::
  "'s env \<Rightarrow> ('s world \<Rightarrow> exn option \<times> 's world) \<Rightarrow> 's world \<Rightarrow> exn option \<times> 's world" where
  "lifespan e body w =
     (let r = body w;
          c = await_close_browser e (snd r)
      in (case fst c of None \<Rightarrow> fst r | Some raised \<Rightarrow> Some raised, snd c))"

text \<open>
  An application body: the requests served while the application is up, one after the
  other, and the way the body ends. An exception of a handler ends its request, not the
  body.
\<close>

fun serve :: "'s env \<Rightarrow> request list \<Rightarrow> 's world \<Rightarrow> 's world" where
  "serve e [] w = w"
| "serve e (rq # rqs) w = serve e rqs (snd (app_get e rq w))"

definition app_body ::
  "'s env \<Rightarrow> request list \<Rightarrow> exn option \<Rightarrow> 's world \<Rightarrow> exn option \<times> 's world" where
  "app_body e rqs ending w = (ending, serve e rqs w)"

section \<open>A failed browser start\<close>

text \<open>
  Modelled from the spec: \<^verbatim>\<open>scraper.py\<close>, where the browser session is started, is not
  among the sources. The specification says that when the browser fails to launch the
  acquisition of a page fails with a \<^verbatim>\<open>SessionUnavailable\<close> error that is fatal for the
  current request: the awaited scraper call raises it.
\<close>

definition SessionUnavailable :: "exn" where
  "SessionUnavailable = Error ''SessionUnavailable''"

section \<open>Examples\<close>

text \<open>
  A scraper that knows one user, \<^verbatim>\<open>alice\<close>, and reports every other name as an error;
  its state counts the fetches. A second one whose browser never starts.
\<close>

definition alice_stats :: "dict" where
  "alice_stats =
     [(''userName'', PStr ''alice''), (''School'', PInt 1), (''Basic'', PInt 2),
      (''Easy'', PInt 3), (''Medium'', PInt 4), (''Hard'', PInt 5),
      (''totalProblemsSolved'', PInt 15)]"

definition alice_profile :: "UserProfile" where
  "alice_profile =
     UserProfile_init ''alice'' (Some ''Alice A'') None (Some 120) (Some 15) (Some 7) None
       (Some 2) (Some 9) (Some 30)"

definition alice_problems :: "SolvedProblems" where
  "alice_problems =
     \<lparr>SolvedProblems.userName = ''alice'',
      problemsByDifficulty = [(''Easy'', 1), (''Hard'', 0)],
      Problems =
        [(''Easy'', [\<lparr>question = ''Two Sum'', questionUrl = ''https://example.org/two-sum''\<rparr>]),
         (''Hard'', [])]\<rparr>"

definition not_found :: "dict" where
  "not_found = [(''error'', PStr ''Profile Not Found'')]"

definition demo_fetch :: "dict \<Rightarrow> string \<Rightarrow> nat \<Rightarrow> (exn + dict) \<times> nat" where
  "demo_fetch found name n = (Inr (if name = ''alice'' then found else not_found), Suc n)"

definition demo_env :: "nat env" where
  "demo_env =
     \<lparr>get_gfg_data = demo_fetch alice_stats,
      fetch_user_profile = demo_fetch (UserProfile_dump alice_profile),
      fetch_problem_list = demo_fetch (SolvedProblems_dump alice_problems),
      close_browser = (\<lambda>n. (None, 0)),
      generate_stats_svg = (\<lambda>data. ''<svg/>''),
      get_custom_docs_html = ''<html/>'',
      coerce = \<lparr>lax_str = (\<lambda>v. None), lax_int = (\<lambda>v. None)\<rparr>\<rparr>"

definition unavailable_env :: "nat env" where
  "unavailable_env =
     demo_env
       \<lparr>get_gfg_data := (\<lambda>name n. (Inl SessionUnavailable, n)),
        fetch_user_profile := (\<lambda>name n. (Inl SessionUnavailable, n)),
        fetch_problem_list := (\<lambda>name n. (Inl SessionUnavailable, n))\<rparr>"

definition demo_world :: "nat world" where
  "demo_world = \<lparr>remote = 0, calls = []\<rparr>"

section \<open>Properties\<close>

subsection \<open>What a handler hands back\<close>

lemma raise_not_found_present:
  assumes "contains data ''error''"
  shows "\<exists>d. getitem data ''error'' = Inr d
        \<and> raise_not_found data = HTTPException 404 (if d = PNone then PStr ''Not Found'' else d)"
proof -
  from assms obtain d where d: "map_of data ''error'' = Some d"
    unfolding contains_def by blast
  then have "getitem data ''error'' = Inr d" by (simp add: getitem_def)
  moreover from this have
    "raise_not_found data = HTTPException 404 (if d = PNone then PStr ''Not Found'' else d)"
    by (simp add: raise_not_found_def not_found_exception_def)
  ultimately show ?thesis by blast
qed


lemma getitem_Inr_contains: "getitem data k = Inr d \<Longrightarrow> contains data k"
  by (auto simp: contains_def getitem_def split: option.splits)

lemma profile_outcome:
  "fst (get_user_profile_endpoint e u w) =
     (case fst (fetch_user_profile e u (remote w)) of
        Inl x \<Rightarrow> Inl x
      | Inr data \<Rightarrow> if contains data ''error'' then Inl (raise_not_found data) else Inr (Data data))"
  by (cases "fst (fetch_user_profile e u (remote w))")
     (simp_all add: get_user_profile_endpoint_def await_fetch_user_profile_def Let_def)

lemma stats_outcome:
  "fst (get_user_stats_endpoint e u f w) =
     (case fst (get_gfg_data e u (remote w)) of
        Inl x \<Rightarrow> Inl x
      | Inr data \<Rightarrow>
          if contains data ''error'' then Inl (raise_not_found data)
          else Inr (if f = ''svg'' then Resp (svg_response (generate_stats_svg e data))
                    else Data data))"
  by (cases "fst (get_gfg_data e u (remote w))")
     (simp_all add: get_user_stats_endpoint_def await_get_gfg_data_def Let_def)

lemma problems_outcome:
  "fst (get_solved_problems_endpoint e u w) =
     (case fst (fetch_problem_list e u (remote w)) of
        Inl x \<Rightarrow> Inl x
      | Inr data \<Rightarrow> if contains data ''error'' then Inl (raise_not_found data) else Inr (Data data))"
  by (cases "fst (fetch_problem_list e u (remote w))")
     (simp_all add: get_solved_problems_endpoint_def await_fetch_problem_list_def Let_def)

lemma card_outcome:
  "fst (get_stats_card e u w) =
     (case fst (get_gfg_data e u (remote w)) of
        Inl x \<Rightarrow> Inl x
      | Inr data \<Rightarrow>
          if contains data ''error'' then Inl (raise_not_found data)
          else Inr (Resp (svg_response (generate_stats_svg e data))))"
  by (cases "fst (get_gfg_data e u (remote w))")
     (simp_all add: get_stats_card_def await_get_gfg_data_def Let_def)

lemma profile_world:
  "snd (get_user_profile_endpoint e u w) =
     \<lparr>remote = snd (fetch_user_profile e u (remote w)), calls = calls w @ [Call_fetch_user_profile u]\<rparr>"
  by (cases "fst (fetch_user_profile e u (remote w))")
     (simp_all add: get_user_profile_endpoint_def await_fetch_user_profile_def Let_def)

lemma stats_world:
  "snd (get_user_stats_endpoint e u f w) =
     \<lparr>remote = snd (get_gfg_data e u (remote w)), calls = calls w @ [Call_get_gfg_data u]\<rparr>"
  by (cases "fst (get_gfg_data e u (remote w))")
     (simp_all add: get_user_stats_endpoint_def await_get_gfg_data_def Let_def)

lemma problems_world:
  "snd (get_solved_problems_endpoint e u w) =
     \<lparr>remote = snd (fetch_problem_list e u (remote w)), calls = calls w @ [Call_fetch_problem_list u]\<rparr>"
  by (cases "fst (fetch_problem_list e u (remote w))")
     (simp_all add: get_solved_problems_endpoint_def await_fetch_problem_list_def Let_def)

lemma card_world:
  "snd (get_stats_card e u w) =
     \<lparr>remote = snd (get_gfg_data e u (remote w)), calls = calls w @ [Call_get_gfg_data u]\<rparr>"
  by (cases "fst (get_gfg_data e u (remote w))")
     (simp_all add: get_stats_card_def await_get_gfg_data_def Let_def)

lemma stats_route_default:
  "app_get e (Get_stats u None) w = get_user_stats_endpoint e u ''json'' w"
  by (simp add: query_format_def format_default_def)

lemmas demo_defs =
  demo_env_def demo_world_def demo_fetch_def alice_stats_def not_found_def
  contains_def getitem_def

subsection \<open>The stats route\<close>

text \<open>
  C4. When the stats fetch succeeds (the awaited call hands back a dict with no key
  \<^verbatim>\<open>error\<close>), the stats handler with format \<^verbatim>\<open>svg\<close> returns a response whose
  content is the rendered card, whose media type is \<^verbatim>\<open>image/svg+xml\<close> and whose only
  header is \<^verbatim>\<open>Cache-Control: public, max-age=14400\<close>; with format \<^verbatim>\<open>json\<close>, and
  through the route with no format at all, it returns the fetched dict.
\<close>

theorem stats_svg_and_json:
  "fst (get_gfg_data e u (remote w)) = Inr data \<Longrightarrow> \<not> contains data ''error'' \<Longrightarrow>
     fst (get_user_stats_endpoint e u ''svg'' w)
       = Inr (Resp \<lparr>content = generate_stats_svg e data,
                    media_type = ''image/svg+xml'',
                    headers = [(''Cache-Control'', ''public, max-age=14400'')]\<rparr>)
     \<and> fst (app_get e (Get_stats u (Some ''svg'')) w) = fst (get_user_stats_endpoint e u ''svg'' w)
     \<and> fst (get_user_stats_endpoint e u ''json'' w) = Inr (Data data)
     \<and> fst (app_get e (Get_stats u (Some ''json'')) w) = Inr (Data data)
     \<and> fst (app_get e (Get_stats u None) w) = Inr (Data data)"
  by (simp add: stats_outcome svg_response_def query_format_def format_literals_def
        format_default_def)

theorem stats_svg_and_json_witness:
  "fst (get_gfg_data demo_env ''alice'' (remote demo_world)) = Inr alice_stats
   \<and> \<not> contains alice_stats ''error''
   \<and> fst (get_user_stats_endpoint demo_env ''alice'' ''svg'' demo_world)
       = Inr (Resp \<lparr>content = ''<svg/>'', media_type = ''image/svg+xml'',
                    headers = [(''Cache-Control'', ''public, max-age=14400'')]\<rparr>)
   \<and> fst (get_user_stats_endpoint demo_env ''alice'' ''json'' demo_world) = Inr (Data alice_stats)
   \<and> fst (app_get demo_env (Get_stats ''alice'' None) demo_world) = Inr (Data alice_stats)"
proof -
  have a: "fst (get_gfg_data demo_env ''alice'' (remote demo_world)) = Inr alice_stats"
    and b: "\<not> contains alice_stats ''error''"
    and c: "generate_stats_svg demo_env alice_stats = ''<svg/>''"
    by (simp_all add: demo_defs)
  note t = stats_svg_and_json[OF a b]
  from t have 1: "fst (get_user_stats_endpoint demo_env ''alice'' ''svg'' demo_world)
       = Inr (Resp \<lparr>content = generate_stats_svg demo_env alice_stats,
                    media_type = ''image/svg+xml'',
                    headers = [(''Cache-Control'', ''public, max-age=14400'')]\<rparr>)" by blast
  from t have 2: "fst (get_user_stats_endpoint demo_env ''alice'' ''json'' demo_world)
       = Inr (Data alice_stats)" by blast
  from t have 3: "fst (app_get demo_env (Get_stats ''alice'' None) demo_world)
       = Inr (Data alice_stats)" by blast
  from a b 1[unfolded c] 2 3 show ?thesis by blast
qed

subsection \<open>The liveness route\<close>

text \<open>
  C8. \<^verbatim>\<open>GET /\<close> returns the dict with \<^verbatim>\<open>status\<close> \<^verbatim>\<open>ok\<close> and \<^verbatim>\<open>service\<close>
  \<^verbatim>\<open>GFG Scraper\<close>, for every environment and every world, and leaves the world as it
  was.
\<close>

theorem health_check_payload:
  "health_check = [(''status'', PStr ''ok''), (''service'', PStr ''GFG Scraper'')]
   \<and> app_get e Get_root w = (Inr (Data [(''status'', PStr ''ok''), (''service'', PStr ''GFG Scraper'')]), w)"
  by (simp add: health_check_def)

subsection \<open>The format parameter\<close>

text \<open>
  C10. The \<^verbatim>\<open>format\<close> parameter of the stats route accepts the two literals
  \<^verbatim>\<open>json\<close> and \<^verbatim>\<open>svg\<close> and nothing else; a request without it is handled as
  \<^verbatim>\<open>json\<close> and, the fetch succeeding, returns the dict; any other value is rejected
  with the world unchanged, so before the handler made its call to the scraper.
\<close>

theorem format_validation:
  "query_format None = Inr ''json''
   \<and> query_format (Some ''json'') = Inr ''json''
   \<and> query_format (Some ''svg'') = Inr ''svg''
   \<and> ((\<exists>f. query_format (Some v) = Inr f) \<longleftrightarrow> v = ''json'' \<or> v = ''svg'')
   \<and> (v \<noteq> ''json'' \<and> v \<noteq> ''svg'' \<longrightarrow>
        app_get e (Get_stats u (Some v)) w = (Inl (RequestValidationError ''format''), w))
   \<and> app_get e (Get_stats u None) w = get_user_stats_endpoint e u ''json'' w
   \<and> (\<forall>data. fst (get_gfg_data e u (remote w)) = Inr data \<and> \<not> contains data ''error'' \<longrightarrow>
        fst (app_get e (Get_stats u None) w) = Inr (Data data))"
  by (simp add: query_format_def format_literals_def format_default_def stats_outcome)

theorem format_validation_witness:
  "''xml'' \<noteq> ''json'' \<and> ''xml'' \<noteq> ''svg''
   \<and> app_get demo_env (Get_stats ''alice'' (Some ''xml'')) demo_world
       = (Inl (RequestValidationError ''format''), demo_world)
   \<and> fst (get_gfg_data demo_env ''alice'' (remote demo_world)) = Inr alice_stats
   \<and> \<not> contains alice_stats ''error''
   \<and> fst (app_get demo_env (Get_stats ''alice'' None) demo_world) = Inr (Data alice_stats)"
proof -
  have a: "''xml'' \<noteq> ''json'' \<and> ''xml'' \<noteq> ''svg''" by simp
  have b: "fst (get_gfg_data demo_env ''alice'' (remote demo_world)) = Inr alice_stats"
    and c: "\<not> contains alice_stats ''error''"
    by (simp_all add: demo_defs)
  note fv = format_validation[of "''xml''" demo_env "''alice''" demo_world]
  from fv a have d: "app_get demo_env (Get_stats ''alice'' (Some ''xml'')) demo_world
       = (Inl (RequestValidationError ''format''), demo_world)" by blast
  from fv b c have f: "fst (app_get demo_env (Get_stats ''alice'' None) demo_world)
       = Inr (Data alice_stats)" by blast
  from a b c d f show ?thesis by blast
qed

subsection \<open>The response models\<close>

text \<open>
  C5. The JSON member names of the four response models are the declared attribute names:
  the ten of \<^verbatim>\<open>UserProfile\<close>, the seven of \<^verbatim>\<open>UserStats\<close>, the three of
  \<^verbatim>\<open>SolvedProblems\<close> and the two of \<^verbatim>\<open>Problem\<close>, spelled as the contract lists
  them.
\<close>

theorem model_field_names:
  "map fst (UserProfile_dump p) =
     [''userName'', ''fullName'', ''designation'', ''codingScore'', ''problemsSolved'',
      ''instituteRank'', ''articlesPublished'', ''potdStreak'', ''longestStreak'', ''potdsSolved'']
   \<and> map fst (UserStats_dump s) =
     [''userName'', ''School'', ''Basic'', ''Easy'', ''Medium'', ''Hard'', ''totalProblemsSolved'']
   \<and> map fst (SolvedProblems_dump sp) = [''userName'', ''problemsByDifficulty'', ''Problems'']
   \<and> map fst (Problem_dump q) = [''question'', ''questionUrl'']"
  by (simp add: UserProfile_dump_def UserStats_dump_def SolvedProblems_dump_def Problem_dump_def)

text \<open>
  C6, as the code has it. The numeric fields are declared \<^verbatim>\<open>int\<close> with no lower
  bound, so a record with a negative score is constructed without complaint.
\<close>

theorem negative_score_accepted:
  "\<not> 0 \<le> codingScore (UserProfile_init ''alice'' None None (Some (- 1)) None None None None None None)"
  by (simp add: UserProfile_init_def or_default_def)

text \<open>
  C6, amended. Every numeric field of \<^verbatim>\<open>UserProfile\<close> and of \<^verbatim>\<open>UserStats\<close> is
  an integer that holds the value supplied, of either sign, and is 0 when none is
  supplied.
\<close>

theorem numeric_fields_integers_default_zero:
  "codingScore (UserProfile_init un fn dg cs ps ir ap pst ls pds) = or_default 0 cs
   \<and> problemsSolved (UserProfile_init un fn dg cs ps ir ap pst ls pds) = or_default 0 ps
   \<and> instituteRank (UserProfile_init un fn dg cs ps ir ap pst ls pds) = or_default 0 ir
   \<and> articlesPublished (UserProfile_init un fn dg cs ps ir ap pst ls pds) = or_default 0 ap
   \<and> potdStreak (UserProfile_init un fn dg cs ps ir ap pst ls pds) = or_default 0 pst
   \<and> longestStreak (UserProfile_init un fn dg cs ps ir ap pst ls pds) = or_default 0 ls
   \<and> potdsSolved (UserProfile_init un fn dg cs ps ir ap pst ls pds) = or_default 0 pds
   \<and> School (UserStats_init un sc ba ea me ha tot) = or_default 0 sc
   \<and> Basic (UserStats_init un sc ba ea me ha tot) = or_default 0 ba
   \<and> Easy (UserStats_init un sc ba ea me ha tot) = or_default 0 ea
   \<and> Medium (UserStats_init un sc ba ea me ha tot) = or_default 0 me
   \<and> Hard (UserStats_init un sc ba ea me ha tot) = or_default 0 ha
   \<and> totalProblemsSolved (UserStats_init un sc ba ea me ha tot) = or_default 0 tot
   \<and> or_default (0::int) None = 0 \<and> or_default 0 (Some v) = (v::int)"
  by (simp add: UserProfile_init_def UserStats_init_def or_default_def)


subsection \<open>Shutdown\<close>

lemma app_get_world:
  "snd (app_get e Get_root w) = w"
  "snd (app_get e Get_docs w) = w"
  "snd (app_get e (Get_profile u) w) =
     \<lparr>remote = snd (fetch_user_profile e u (remote w)), calls = calls w @ [Call_fetch_user_profile u]\<rparr>"
  "snd (app_get e (Get_stats u q) w) =
     (case query_format q of
        Inl err \<Rightarrow> w
      | Inr f \<Rightarrow> \<lparr>remote = snd (get_gfg_data e u (remote w)), calls = calls w @ [Call_get_gfg_data u]\<rparr>)"
  "snd (app_get e (Get_problems u) w) =
     \<lparr>remote = snd (fetch_problem_list e u (remote w)), calls = calls w @ [Call_fetch_problem_list u]\<rparr>"
  "snd (app_get e (Get_card u) w) =
     \<lparr>remote = snd (get_gfg_data e u (remote w)), calls = calls w @ [Call_get_gfg_data u]\<rparr>"
  "snd (app_get e (Get_builtin p) w) = w"
  "snd (app_get e (Redirect_slash p) w) = w"
  "snd (app_get e No_route w) = w"
  by (simp_all add: Let_def profile_world stats_world problems_world card_world
        split: sum.splits)

lemma app_get_no_close:
  "count_list (calls (snd (app_get e rq w))) Call_close_browser
     = count_list (calls w) Call_close_browser"
  by (cases rq) (simp_all add: app_get_world del: app_get.simps split: sum.splits)

lemma serve_no_close:
  "count_list (calls (serve e rqs w)) Call_close_browser
     = count_list (calls w) Call_close_browser"
  by (induction rqs arbitrary: w) (simp_all add: app_get_no_close del: app_get.simps)

lemma lifespan_world:
  "snd (lifespan e body w) =
     \<lparr>remote = snd (close_browser e (remote (snd (body w)))),
      calls = calls (snd (body w)) @ [Call_close_browser]\<rparr>"
  by (simp add: lifespan_def await_close_browser_def Let_def)

lemma lifespan_ending:
  "fst (lifespan e body w) =
     (case fst (close_browser e (remote (snd (body w)))) of
        None \<Rightarrow> fst (body w)
      | Some raised \<Rightarrow> Some raised)"
  by (simp add: lifespan_def await_close_browser_def Let_def)

text \<open>
  C9. \<^verbatim>\<open>lifespan\<close> applies \<^verbatim>\<open>close_browser\<close> once, to the state the body leaves
  behind, as the last call of the run and whether the body ends normally or with an
  exception (which goes on unless \<^verbatim>\<open>close_browser\<close> itself raises). No route
  applies it: each leaves the world as it was or changed by its one scraper call alone.
  So over a whole run of requests \<^verbatim>\<open>close_browser\<close> is called exactly once.
\<close>

theorem close_browser_once_at_exit:
  "snd (lifespan e body w) =
     \<lparr>remote = snd (close_browser e (remote (snd (body w)))),
      calls = calls (snd (body w)) @ [Call_close_browser]\<rparr>
   \<and> fst (lifespan e body w) =
       (case fst (close_browser e (remote (snd (body w)))) of
          None \<Rightarrow> fst (body w)
        | Some raised \<Rightarrow> Some raised)
   \<and> snd (app_get e Get_root w) = w
   \<and> snd (app_get e Get_docs w) = w
   \<and> snd (app_get e (Get_profile u) w) =
       \<lparr>remote = snd (fetch_user_profile e u (remote w)),
        calls = calls w @ [Call_fetch_user_profile u]\<rparr>
   \<and> snd (app_get e (Get_stats u q) w) =
       (case query_format q of
          Inl err \<Rightarrow> w
        | Inr f \<Rightarrow> \<lparr>remote = snd (get_gfg_data e u (remote w)),
                     calls = calls w @ [Call_get_gfg_data u]\<rparr>)
   \<and> snd (app_get e (Get_problems u) w) =
       \<lparr>remote = snd (fetch_problem_list e u (remote w)),
        calls = calls w @ [Call_fetch_problem_list u]\<rparr>
   \<and> snd (app_get e (Get_card u) w) =
       \<lparr>remote = snd (get_gfg_data e u (remote w)), calls = calls w @ [Call_get_gfg_data u]\<rparr>
   \<and> snd (app_get e (Get_builtin p) w) = w
   \<and> snd (app_get e (Redirect_slash p) w) = w
   \<and> snd (app_get e No_route w) = w
   \<and> count_list (calls (snd (app_get e rq w))) Call_close_browser
        = count_list (calls w) Call_close_browser
   \<and> remote (snd (lifespan e (app_body e rqs ending) w))
        = snd (close_browser e (remote (serve e rqs w)))
   \<and> count_list (calls (snd (lifespan e (app_body e rqs ending) w))) Call_close_browser
        = count_list (calls w) Call_close_browser + 1
   \<and> last (calls (snd (lifespan e (app_body e rqs ending) w))) = Call_close_browser"
  unfolding lifespan_world lifespan_ending app_get_world
  by (simp add: app_body_def serve_no_close app_get_no_close del: app_get.simps)

theorem close_browser_once_at_exit_witness:
  "snd (lifespan demo_env
          (app_body demo_env [Get_root, Get_stats ''alice'' None, Get_profile ''bob'']
             (Some (Error ''KeyboardInterrupt'')))
          demo_world)
     = \<lparr>remote = 0,
        calls = [Call_get_gfg_data ''alice'', Call_fetch_user_profile ''bob'', Call_close_browser]\<rparr>
   \<and> fst (lifespan demo_env
          (app_body demo_env [Get_root, Get_stats ''alice'' None, Get_profile ''bob'']
             (Some (Error ''KeyboardInterrupt'')))
          demo_world) = Some (Error ''KeyboardInterrupt'')"
proof -
  let ?body = "app_body demo_env [Get_root, Get_stats ''alice'' None, Get_profile ''bob'']
             (Some (Error ''KeyboardInterrupt''))"
  note t = close_browser_once_at_exit[of demo_env ?body demo_world]
  have b: "snd (?body demo_world)
     = \<lparr>remote = 2, calls = [Call_get_gfg_data ''alice'', Call_fetch_user_profile ''bob'']\<rparr>"
    by (simp add: app_body_def app_get_world query_format_def format_default_def
          demo_env_def demo_world_def demo_fetch_def del: app_get.simps)
  have f: "fst (?body demo_world) = Some (Error ''KeyboardInterrupt'')"
    by (simp add: app_body_def)
  have c: "close_browser demo_env 2 = (None, 0)" by (simp add: demo_env_def)
  from t have 1: "snd (lifespan demo_env ?body demo_world) =
     \<lparr>remote = snd (close_browser demo_env (remote (snd (?body demo_world)))),
      calls = calls (snd (?body demo_world)) @ [Call_close_browser]\<rparr>" by blast
  from t have 2: "fst (lifespan demo_env ?body demo_world) =
       (case fst (close_browser demo_env (remote (snd (?body demo_world)))) of
          None \<Rightarrow> fst (?body demo_world)
        | Some raised \<Rightarrow> Some raised)" by blast
  from 1 2 show ?thesis unfolding b f by (simp add: c)
qed


subsection \<open>Exceptions of the scraper\<close>

lemma app_get_outcome:
  "fst (app_get e (Get_profile u) w) =
     response_model (\<lambda>data. map_option UserProfile_dump (UserProfile_validate (coerce e) data))
       (fst (get_user_profile_endpoint e u w))"
  "fst (app_get e (Get_problems u) w) =
     response_model (\<lambda>data. map_option SolvedProblems_dump
                               (SolvedProblems_validate (coerce e) data))
       (fst (get_solved_problems_endpoint e u w))"
  "query_format q = Inr f \<Longrightarrow>
     fst (app_get e (Get_stats u q) w) = fst (get_user_stats_endpoint e u f w)"
  by (simp_all add: Let_def)

lemma raised_passes:
  "fst (fetch_user_profile e u (remote w)) = Inl x \<Longrightarrow> fst (app_get e (Get_profile u) w) = Inl x"
  "fst (fetch_problem_list e u (remote w)) = Inl x \<Longrightarrow> fst (app_get e (Get_problems u) w) = Inl x"
  "fst (get_gfg_data e u (remote w)) = Inl x \<Longrightarrow> fst (get_user_stats_endpoint e u f w) = Inl x"
  "fst (get_gfg_data e u (remote w)) = Inl x \<Longrightarrow> fst (get_stats_card e u w) = Inl x"
  by (simp_all add: app_get_outcome profile_outcome problems_outcome stats_outcome card_outcome
        response_model_def del: app_get.simps)

text \<open>
  C2. When the browser session fails to start, so that the awaited scraper call raises
  \<^verbatim>\<open>SessionUnavailable\<close>, each of the three data routes lets the exception pass (no
  handler catches it) and the client sees status 500, a status of the 500 range and not
  404; and there is such an outcome.
\<close>

theorem session_unavailable_is_5xx:
  "(fst (fetch_user_profile e u (remote w)) = Inl SessionUnavailable \<longrightarrow>
      fst (app_get e (Get_profile u) w) = Inl SessionUnavailable
      \<and> status_code (fst (app_get e (Get_profile u) w)) = 500)
   \<and> (fst (get_gfg_data e u (remote w)) = Inl SessionUnavailable \<and> query_format q = Inr f \<longrightarrow>
      fst (app_get e (Get_stats u q) w) = Inl SessionUnavailable
      \<and> status_code (fst (app_get e (Get_stats u q) w)) = 500)
   \<and> (fst (fetch_problem_list e u (remote w)) = Inl SessionUnavailable \<longrightarrow>
      fst (app_get e (Get_problems u) w) = Inl SessionUnavailable
      \<and> status_code (fst (app_get e (Get_problems u) w)) = 500)
   \<and> status_code (Inl SessionUnavailable) = 500
   \<and> (\<exists>(env :: nat env) name world.
         fst (app_get env (Get_stats name None) world) = Inl SessionUnavailable
         \<and> 500 \<le> status_code (fst (app_get env (Get_stats name None) world))
         \<and> status_code (fst (app_get env (Get_stats name None) world)) < 600
         \<and> status_code (fst (app_get env (Get_stats name None) world)) \<noteq> 404)"
proof -
  have s: "status_code (Inl SessionUnavailable) = 500"
    by (simp add: status_code_def SessionUnavailable_def)
  have p: "fst (fetch_user_profile e u (remote w)) = Inl SessionUnavailable \<Longrightarrow>
      fst (app_get e (Get_profile u) w) = Inl SessionUnavailable"
    by (rule raised_passes(1))
  have g: "fst (get_gfg_data e u (remote w)) = Inl SessionUnavailable \<Longrightarrow> query_format q = Inr f \<Longrightarrow>
      fst (app_get e (Get_stats u q) w) = Inl SessionUnavailable"
    by (simp add: app_get_outcome(3) raised_passes(3) del: app_get.simps)
  have b: "fst (fetch_problem_list e u (remote w)) = Inl SessionUnavailable \<Longrightarrow>
      fst (app_get e (Get_problems u) w) = Inl SessionUnavailable"
    by (rule raised_passes(2))
  have x: "fst (app_get unavailable_env (Get_stats ''alice'' None) demo_world) = Inl SessionUnavailable"
    by (simp add: stats_outcome query_format_def format_default_def unavailable_env_def
          demo_env_def demo_world_def)
  have ex: "\<exists>(env :: nat env) name world.
         fst (app_get env (Get_stats name None) world) = Inl SessionUnavailable
         \<and> 500 \<le> status_code (fst (app_get env (Get_stats name None) world))
         \<and> status_code (fst (app_get env (Get_stats name None) world)) < 600
         \<and> status_code (fst (app_get env (Get_stats name None) world)) \<noteq> 404"
    apply (rule exI[of _ unavailable_env], rule exI[of _ "''alice''"], rule exI[of _ demo_world])
    unfolding x s by simp
  from s p g b ex show ?thesis by (simp del: app_get.simps)
qed

theorem session_unavailable_is_5xx_witness:
  "fst (fetch_user_profile unavailable_env ''alice'' (remote demo_world)) = Inl SessionUnavailable
   \<and> status_code (fst (app_get unavailable_env (Get_profile ''alice'') demo_world)) = 500
   \<and> fst (get_gfg_data unavailable_env ''alice'' (remote demo_world)) = Inl SessionUnavailable
   \<and> query_format (Some ''svg'') = Inr ''svg''
   \<and> status_code (fst (app_get unavailable_env (Get_stats ''alice'' (Some ''svg'')) demo_world)) = 500
   \<and> fst (fetch_problem_list unavailable_env ''alice'' (remote demo_world)) = Inl SessionUnavailable
   \<and> status_code (fst (app_get unavailable_env (Get_problems ''alice'') demo_world)) = 500"
proof -
  have a: "fst (fetch_user_profile unavailable_env ''alice'' (remote demo_world)) = Inl SessionUnavailable"
    and b: "fst (get_gfg_data unavailable_env ''alice'' (remote demo_world)) = Inl SessionUnavailable"
    and c: "fst (fetch_problem_list unavailable_env ''alice'' (remote demo_world)) = Inl SessionUnavailable"
    by (simp_all add: unavailable_env_def demo_env_def)
  have q: "query_format (Some ''svg'') = Inr ''svg''"
    by (simp add: query_format_def format_literals_def)
  note t = session_unavailable_is_5xx[of unavailable_env "''alice''" demo_world "Some ''svg''" "''svg''"]
  from t a have 1: "status_code (fst (app_get unavailable_env (Get_profile ''alice'') demo_world)) = 500"
    by blast
  from t b q have 2:
    "status_code (fst (app_get unavailable_env (Get_stats ''alice'' (Some ''svg'')) demo_world)) = 500"
    by blast
  from t c have 3: "status_code (fst (app_get unavailable_env (Get_problems ''alice'') demo_world)) = 500"
    by blast
  from a b c q 1 2 3 show ?thesis by blast
qed


subsection \<open>Which route a path reaches\<close>

lemma strip_prefix_Some: "strip_prefix pre s = Some rest \<Longrightarrow> s = pre @ rest"
  by (induction pre s rule: strip_prefix.induct) (auto split: if_splits)

lemma strip_prefix_append: "strip_prefix pre (pre @ rest) = Some rest"
  by (induction pre) simp_all

lemma strip_prefix_slash:
  assumes "CHR ''/'' \<notin> set u" and "CHR ''/'' \<in> set pre"
  shows "strip_prefix pre u = None"
proof (cases "strip_prefix pre u")
  case None
  then show ?thesis .
next
  case (Some rest)
  then have "u = pre @ rest" by (rule strip_prefix_Some)
  with assms show ?thesis by simp
qed

lemma match_param_slash:
  "CHR ''/'' \<notin> set u \<Longrightarrow> CHR ''/'' \<in> set pre \<Longrightarrow> match_param (CHR ''/'' # pre) (CHR ''/'' # u) = None"
  by (simp add: match_param_def strip_prefix_slash)

lemma first_match_card:
  assumes "u \<noteq> []" and "CHR ''/'' \<notin> set u"
    and "u \<notin> {[CHR 0x0A], ''docs'', ''docs'' @ [CHR 0x0A], ''redoc'', ''redoc'' @ [CHR 0x0A],
               ''openapi.json'', ''openapi.json'' @ [CHR 0x0A]}"
  shows "first_match (''/'' @ u) q = Some (Get_card u)"
proof -
  have n: "u \<noteq> ''docs/oauth2-redirect''" "u \<noteq> ''docs/oauth2-redirect'' @ [CHR 0x0A]"
    using assms(2) by auto
  have p: "match_param ''/profile/'' (CHR ''/'' # u) = None"
    and s: "match_param ''/stats/'' (CHR ''/'' # u) = None"
    and b: "match_param ''/problems/'' (CHR ''/'' # u) = None"
    using assms(2) by (simp_all add: match_param_slash)
  have c: "match_param ''/'' (CHR ''/'' # u) = Some u"
    using assms(1,2) by (simp add: match_param_def path_param_def)
  show ?thesis
    using assms n by (simp add: first_match_def fixed_path_def p s b c)
qed

lemma first_match_stats:
  assumes "u \<noteq> []" and "CHR ''/'' \<notin> set u"
  shows "first_match (''/stats/'' @ u) q = Some (Get_stats u q)"
proof -
  have p: "match_param ''/profile/'' (''/stats/'' @ u) = None"
    by (simp add: match_param_def)
  have s: "match_param ''/stats/'' (''/stats/'' @ u) = Some u"
    using assms by (simp add: match_param_def path_param_def)
  have nf: "\<not> fixed_path r (''/stats/'' @ u)"
    if "r \<in> {''/openapi.json'', ''/docs'', ''/docs/oauth2-redirect'', ''/redoc'', ''/''}" for r
    using that by (auto simp: fixed_path_def)
  show ?thesis
    by (simp add: first_match_def nf p s del: append.simps)
qed


lemma first_match_profile:
  assumes "u \<noteq> []" and "CHR ''/'' \<notin> set u"
  shows "first_match (''/profile/'' @ u) q = Some (Get_profile u)"
proof -
  have p: "match_param ''/profile/'' (''/profile/'' @ u) = Some u"
    using assms by (simp add: match_param_def path_param_def)
  have nf: "\<not> fixed_path r (''/profile/'' @ u)"
    if "r \<in> {''/openapi.json'', ''/docs'', ''/docs/oauth2-redirect'', ''/redoc'', ''/''}" for r
    using that by (auto simp: fixed_path_def)
  show ?thesis
    by (simp add: first_match_def nf p del: append.simps)
qed

lemma first_match_problems:
  assumes "u \<noteq> []" and "CHR ''/'' \<notin> set u"
  shows "first_match (''/problems/'' @ u) q = Some (Get_problems u)"
proof -
  have p: "match_param ''/profile/'' (''/problems/'' @ u) = None"
    and s: "match_param ''/stats/'' (''/problems/'' @ u) = None"
    by (simp_all add: match_param_def)
  have b: "match_param ''/problems/'' (''/problems/'' @ u) = Some u"
    using assms by (simp add: match_param_def path_param_def)
  have nf: "\<not> fixed_path r (''/problems/'' @ u)"
    if "r \<in> {''/openapi.json'', ''/docs'', ''/docs/oauth2-redirect'', ''/redoc'', ''/''}" for r
    using that by (auto simp: fixed_path_def)
  show ?thesis
    by (simp add: first_match_def nf p s b del: append.simps)
qed

lemma route_of_data:
  assumes "path_param u"
  shows "route_of (''/profile/'' @ u) q = Get_profile u"
    and "route_of (''/stats/'' @ u) q = Get_stats u q"
    and "route_of (''/problems/'' @ u) q = Get_problems u"
  using assms
  by (simp_all add: route_of_def path_param_def first_match_profile first_match_stats
        first_match_problems del: append.simps)

lemma route_of_card:
  assumes "path_param u"
    and "u \<notin> {[CHR 0x0A], ''docs'', ''docs'' @ [CHR 0x0A], ''redoc'', ''redoc'' @ [CHR 0x0A],
               ''openapi.json'', ''openapi.json'' @ [CHR 0x0A]}"
  shows "route_of (''/'' @ u) q = Get_card u"
proof -
  from assms(1) have "u \<noteq> []" "CHR ''/'' \<notin> set u" by (simp_all add: path_param_def)
  from first_match_card[OF this assms(2)] show ?thesis by (simp add: route_of_def)
qed

lemma route_of_builtin:
  "route_of ''/docs'' q = Get_builtin ''/docs''"
  "route_of ''/redoc'' q = Get_builtin ''/redoc''"
  "route_of ''/openapi.json'' q = Get_builtin ''/openapi.json''"
  by (simp_all add: route_of_def first_match_def fixed_path_def)

subsection \<open>The two SVG paths\<close>

text \<open>
  C3, as the code has it. Not every user name reaches the card: \<^verbatim>\<open>GET /docs\<close> is taken
  by a route registered before \<^verbatim>\<open>/{userName}\<close> and answers with a documentation page
  without any call to the scraper, while \<^verbatim>\<open>GET /stats/docs?format=svg\<close> fetches the
  user \<^verbatim>\<open>docs\<close> and answers with the card.
\<close>

theorem docs_path_is_not_the_card:
  "path_param ''docs''
   \<and> http_get (demo_env\<lparr>get_gfg_data := (\<lambda>name n. (Inr alice_stats, Suc n))\<rparr>) ''/docs'' None demo_world
       = (Inr (Page ''/docs''), demo_world)
   \<and> http_get (demo_env\<lparr>get_gfg_data := (\<lambda>name n. (Inr alice_stats, Suc n))\<rparr>)
        ''/stats/docs'' (Some ''svg'') demo_world
       = (Inr (Resp \<lparr>content = ''<svg/>'', media_type = ''image/svg+xml'',
                      headers = [(''Cache-Control'', ''public, max-age=14400'')]\<rparr>),
          \<lparr>remote = 1, calls = [Call_get_gfg_data ''docs'']\<rparr>)
   \<and> http_get (demo_env\<lparr>get_gfg_data := (\<lambda>name n. (Inr alice_stats, Suc n))\<rparr>) ''/docs'' None demo_world
       \<noteq> http_get (demo_env\<lparr>get_gfg_data := (\<lambda>name n. (Inr alice_stats, Suc n))\<rparr>)
            ''/stats/docs'' (Some ''svg'') demo_world"
proof -
  let ?e = "demo_env\<lparr>get_gfg_data := (\<lambda>name n. (Inr alice_stats, Suc n))\<rparr>"
  have p: "path_param ''docs''" by (simp add: path_param_def)
  have r: "route_of ''/stats/docs'' (Some ''svg'') = Get_stats ''docs'' (Some ''svg'')"
    using route_of_data(2)[OF p, of "Some ''svg''"] by simp
  have q: "query_format (Some ''svg'') = Inr ''svg''"
    by (simp add: query_format_def format_literals_def)
  have 1: "http_get ?e ''/docs'' None demo_world = (Inr (Page ''/docs''), demo_world)"
    by (simp add: http_get_def route_of_builtin)
  have 2: "http_get ?e ''/stats/docs'' (Some ''svg'') demo_world
       = (Inr (Resp \<lparr>content = ''<svg/>'', media_type = ''image/svg+xml'',
                      headers = [(''Cache-Control'', ''public, max-age=14400'')]\<rparr>),
          \<lparr>remote = 1, calls = [Call_get_gfg_data ''docs'']\<rparr>)"
    unfolding http_get_def r
    by (simp add: q prod_eq_iff stats_outcome stats_world svg_response_def demo_defs)
  from p 1 2 show ?thesis by simp
qed

text \<open>
  C3, amended. For every user name that \<^verbatim>\<open>GET /{userName}\<close> hands to the card, that is
  every non-empty name without a slash other than \<^verbatim>\<open>docs\<close>, \<^verbatim>\<open>redoc\<close> and
  \<^verbatim>\<open>openapi.json\<close>, the answer of \<^verbatim>\<open>GET /{userName}\<close> and that of
  \<^verbatim>\<open>GET /stats/{userName}?format=svg\<close> are the same, and so is the world afterwards,
  changed by the one call to \<^verbatim>\<open>get_gfg_data\<close>: on success the response with the
  rendered card as content, media type \<^verbatim>\<open>image/svg+xml\<close> and the header
  \<^verbatim>\<open>Cache-Control: public, max-age=14400\<close>; on an error result the 404 whose detail is
  the value under \<^verbatim>\<open>error\<close> (\<^verbatim>\<open>Not Found\<close> in the place of \<^verbatim>\<open>None\<close>); and the
  exception itself when the call raises.
\<close>

theorem card_route_equals_stats_svg_route:
  assumes "u \<noteq> []" and "CHR ''/'' \<notin> set u"
    and "u \<notin> {[CHR 0x0A], ''docs'', ''docs'' @ [CHR 0x0A], ''redoc'', ''redoc'' @ [CHR 0x0A],
               ''openapi.json'', ''openapi.json'' @ [CHR 0x0A]}"
  shows
  "http_get e (''/'' @ u) q w = http_get e (''/stats/'' @ u) (Some ''svg'') w
   \<and> http_get e (''/'' @ u) q w = get_stats_card e u w
   \<and> http_get e (''/stats/'' @ u) (Some ''svg'') w = get_user_stats_endpoint e u ''svg'' w
   \<and> snd (http_get e (''/'' @ u) q w)
       = \<lparr>remote = snd (get_gfg_data e u (remote w)), calls = calls w @ [Call_get_gfg_data u]\<rparr>
   \<and> (\<forall>data. fst (get_gfg_data e u (remote w)) = Inr data \<and> \<not> contains data ''error'' \<longrightarrow>
         fst (http_get e (''/'' @ u) q w)
           = Inr (Resp \<lparr>content = generate_stats_svg e data,
                        media_type = ''image/svg+xml'',
                        headers = [(''Cache-Control'', ''public, max-age=14400'')]\<rparr>))
   \<and> (\<forall>data d. fst (get_gfg_data e u (remote w)) = Inr data \<and> getitem data ''error'' = Inr d \<longrightarrow>
         fst (http_get e (''/'' @ u) q w)
           = Inl (HTTPException 404 (if d = PNone then PStr ''Not Found'' else d)))
   \<and> (\<forall>x. fst (get_gfg_data e u (remote w)) = Inl x \<longrightarrow>
         fst (http_get e (''/'' @ u) q w) = Inl x)"
proof -
  have pp: "path_param u" using assms(1,2) by (simp add: path_param_def)
  have q: "query_format (Some ''svg'') = Inr ''svg''"
    by (simp add: query_format_def format_literals_def)
  have c: "http_get e (''/'' @ u) q w = get_stats_card e u w"
    unfolding http_get_def route_of_card[OF pp assms(3)] by simp
  have s: "http_get e (''/stats/'' @ u) (Some ''svg'') w = get_user_stats_endpoint e u ''svg'' w"
    unfolding http_get_def route_of_data(2)[OF pp] by (simp add: q)
  have eq: "get_stats_card e u w = get_user_stats_endpoint e u ''svg'' w"
    by (simp add: prod_eq_iff card_outcome stats_outcome card_world stats_world
          split: sum.splits)
  have ok: "fst (get_stats_card e u w)
           = Inr (Resp \<lparr>content = generate_stats_svg e data,
                        media_type = ''image/svg+xml'',
                        headers = [(''Cache-Control'', ''public, max-age=14400'')]\<rparr>)"
    if "fst (get_gfg_data e u (remote w)) = Inr data" "\<not> contains data ''error''" for data
    using that by (simp add: card_outcome svg_response_def)
  have err: "fst (get_stats_card e u w)
           = Inl (HTTPException 404 (if d = PNone then PStr ''Not Found'' else d))"
    if "fst (get_gfg_data e u (remote w)) = Inr data" "getitem data ''error'' = Inr d" for data d
  proof -
    have "contains data ''error''" using that(2) by (rule getitem_Inr_contains)
    with raise_not_found_present[OF this] that show ?thesis
      by (simp add: card_outcome)
  qed
  have raised: "fst (get_stats_card e u w) = Inl x"
    if "fst (get_gfg_data e u (remote w)) = Inl x" for x
    using that by (simp add: card_outcome)
  show ?thesis
    unfolding c s
    using eq ok err raised card_world[of e u w] by simp
qed


theorem card_route_equals_stats_svg_route_witness:
  "''alice'' \<noteq> [] \<and> CHR ''/'' \<notin> set ''alice''
   \<and> ''alice'' \<notin> {[CHR 0x0A], ''docs'', ''docs'' @ [CHR 0x0A], ''redoc'', ''redoc'' @ [CHR 0x0A],
                    ''openapi.json'', ''openapi.json'' @ [CHR 0x0A]}
   \<and> http_get demo_env ''/alice'' None demo_world
       = http_get demo_env ''/stats/alice'' (Some ''svg'') demo_world
   \<and> fst (get_gfg_data demo_env ''alice'' (remote demo_world)) = Inr alice_stats
   \<and> \<not> contains alice_stats ''error''
   \<and> fst (http_get demo_env ''/alice'' None demo_world)
       = Inr (Resp \<lparr>content = ''<svg/>'', media_type = ''image/svg+xml'',
                    headers = [(''Cache-Control'', ''public, max-age=14400'')]\<rparr>)"
proof -
  have h: "''alice'' \<noteq> []" "CHR ''/'' \<notin> set ''alice''"
    "''alice'' \<notin> {[CHR 0x0A], ''docs'', ''docs'' @ [CHR 0x0A], ''redoc'', ''redoc'' @ [CHR 0x0A],
                    ''openapi.json'', ''openapi.json'' @ [CHR 0x0A]}"
    by simp_all
  have a: "fst (get_gfg_data demo_env ''alice'' (remote demo_world)) = Inr alice_stats"
    and b: "\<not> contains alice_stats ''error''"
    and c: "generate_stats_svg demo_env alice_stats = ''<svg/>''"
    by (simp_all add: demo_defs)
  note t = card_route_equals_stats_svg_route[OF h, of demo_env None demo_world]
  from t have 1: "http_get demo_env (''/'' @ ''alice'') None demo_world
       = http_get demo_env (''/stats/'' @ ''alice'') (Some ''svg'') demo_world" by blast
  from t a b have 2: "fst (http_get demo_env (''/'' @ ''alice'') None demo_world)
       = Inr (Resp \<lparr>content = generate_stats_svg demo_env alice_stats,
                    media_type = ''image/svg+xml'',
                    headers = [(''Cache-Control'', ''public, max-age=14400'')]\<rparr>)" by blast
  have p: "''/'' @ ''alice'' = ''/alice''" "''/stats/'' @ ''alice'' = ''/stats/alice''" by simp_all
  from h a b 1[unfolded p] 2[unfolded p c] show ?thesis by blast
qed


subsection \<open>Validation against the response models\<close>

lemma those_map_Some: "those (map (\<lambda>x. Some (f x)) xs) = Some (map f xs)"
  by (induction xs) simp_all

lemma Problem_validate_dump: "Problem_validate lx (PDict (Problem_dump p)) = Some p"
  by (simp add: Problem_validate_def Problem_dump_def required_def as_str_def)

lemma as_list_Problem_dump:
  "as_list (Problem_validate lx) (PList (map (\<lambda>p. PDict (Problem_dump p)) ps)) = Some ps"
  using those_map_Some[of id ps]
  by (simp add: as_list_def comp_def Problem_validate_dump)

lemma as_dict_int_dump:
  "as_dict (as_int lx) (PDict (map (\<lambda>kv. (fst kv, PInt (snd kv))) xs)) = Some xs"
  using those_map_Some[of id xs]
  by (simp add: as_dict_def comp_def as_int_def)

lemma as_dict_problems_dump:
  "as_dict (as_list (Problem_validate lx))
     (PDict (map (\<lambda>kv. (fst kv, PList (map (\<lambda>p. PDict (Problem_dump p)) (snd kv)))) xs)) = Some xs"
  using those_map_Some[of id xs]
  by (simp add: as_dict_def comp_def as_list_Problem_dump)

lemma SolvedProblems_validate_dump:
  "SolvedProblems_validate lx (SolvedProblems_dump sp) = Some sp"
  by (simp add: SolvedProblems_validate_def SolvedProblems_dump_def required_def as_str_def
        as_dict_int_dump as_dict_problems_dump)

lemma UserProfile_validate_dump:
  "UserProfile_validate lx (UserProfile_dump p) = Some p"
  by (simp add: UserProfile_validate_def UserProfile_dump_def required_def optional_def
        as_str_def as_int_def UserProfile_init_def or_default_def)

lemma UserProfile_validate_required:
  "\<not> contains data ''userName'' \<Longrightarrow> UserProfile_validate lx data = None"
  by (simp add: UserProfile_validate_def required_def contains_def)

lemma SolvedProblems_validate_required:
  "\<not> contains data ''userName'' \<or> \<not> contains data ''problemsByDifficulty''
     \<or> \<not> contains data ''Problems'' \<Longrightarrow> SolvedProblems_validate lx data = None"
  by (auto simp: SolvedProblems_validate_def required_def contains_def
           split: option.splits Option.bind_splits)


lemma guarded_outcome:
  assumes "outcome = (if contains data ''error'' then Inl (raise_not_found data) else Inr alt)"
  shows "contains data ''error'' \<longleftrightarrow> (\<exists>d. outcome = Inl (HTTPException 404 d))"
    and "getitem data ''error'' = Inr d \<Longrightarrow>
           outcome = Inl (HTTPException 404 (if d = PNone then PStr ''Not Found'' else d))"
    and "\<not> contains data ''error'' \<Longrightarrow> outcome = Inr alt"
    and "outcome = Inl x \<Longrightarrow> \<exists>d. x = HTTPException 404 d"
proof -
  show "contains data ''error'' \<longleftrightarrow> (\<exists>d. outcome = Inl (HTTPException 404 d))"
  proof (cases "contains data ''error''")
    case True
    from raise_not_found_present[OF True] assms True show ?thesis by auto
  next
    case False
    with assms show ?thesis by simp
  qed
  show "outcome = Inl (HTTPException 404 (if d = PNone then PStr ''Not Found'' else d))"
    if g: "getitem data ''error'' = Inr d"
  proof -
    have c: "contains data ''error''" using g by (rule getitem_Inr_contains)
    from raise_not_found_present[OF c] g assms c show ?thesis by auto
  qed
  show "\<not> contains data ''error'' \<Longrightarrow> outcome = Inr alt"
    using assms by simp
  show "\<exists>d. x = HTTPException 404 d" if o: "outcome = Inl x"
  proof (cases "contains data ''error''")
    case True
    from raise_not_found_present[OF True] assms True o show ?thesis by auto
  next
    case False
    with assms o show ?thesis by simp
  qed
qed

lemma profile_returned:
  "fst (fetch_user_profile e u (remote w)) = Inr data \<Longrightarrow>
     fst (get_user_profile_endpoint e u w) =
       (if contains data ''error'' then Inl (raise_not_found data) else Inr (Data data))"
  by (simp add: profile_outcome)

lemma problems_returned:
  "fst (fetch_problem_list e u (remote w)) = Inr data \<Longrightarrow>
     fst (get_solved_problems_endpoint e u w) =
       (if contains data ''error'' then Inl (raise_not_found data) else Inr (Data data))"
  by (simp add: problems_outcome)

lemma stats_returned:
  "fst (get_gfg_data e u (remote w)) = Inr data \<Longrightarrow>
     fst (get_user_stats_endpoint e u f w) =
       (if contains data ''error'' then Inl (raise_not_found data)
        else Inr (if f = ''svg'' then Resp (svg_response (generate_stats_svg e data))
                  else Data data))"
  by (simp add: stats_outcome)

lemma response_model_simps:
  "response_model validated (Inl x) = Inl x"
  "response_model validated (Inr (Data data)) =
     (case validated data of None \<Rightarrow> Inl ResponseValidationError | Some body \<Rightarrow> Inr (Data body))"
  by (simp_all add: response_model_def)

text \<open>The profile route, for a dict handed back by the scraper.\<close>

lemma profile_route:
  assumes r: "fst (fetch_user_profile e u (remote w)) = Inr data"
  shows "contains data ''error'' \<longleftrightarrow>
           (\<exists>d. fst (app_get e (Get_profile u) w) = Inl (HTTPException 404 d))"
    and "getitem data ''error'' = Inr d \<Longrightarrow>
           fst (app_get e (Get_profile u) w)
             = Inl (HTTPException 404 (if d = PNone then PStr ''Not Found'' else d))"
    and "\<not> contains data ''error'' \<Longrightarrow>
           fst (app_get e (Get_profile u) w)
             = (case UserProfile_validate (coerce e) data of
                  None \<Rightarrow> Inl ResponseValidationError
                | Some m \<Rightarrow> Inr (Data (UserProfile_dump m)))"
proof -
  note h = guarded_outcome[OF profile_returned[OF r]]
  let ?V = "\<lambda>data. map_option UserProfile_dump (UserProfile_validate (coerce e) data)"
  have a: "fst (app_get e (Get_profile u) w) = response_model ?V (fst (get_user_profile_endpoint e u w))"
    by (rule app_get_outcome(1))
  show "contains data ''error'' \<longleftrightarrow>
           (\<exists>d. fst (app_get e (Get_profile u) w) = Inl (HTTPException 404 d))"
  proof (cases "contains data ''error''")
    case True
    with h(1) obtain d where "fst (get_user_profile_endpoint e u w) = Inl (HTTPException 404 d)"
      by blast
    with True show ?thesis unfolding a by (simp add: response_model_simps)
  next
    case False
    from h(3)[OF False] False show ?thesis
      unfolding a by (simp add: response_model_simps split: option.splits)
  qed
  show "getitem data ''error'' = Inr d \<Longrightarrow>
           fst (app_get e (Get_profile u) w)
             = Inl (HTTPException 404 (if d = PNone then PStr ''Not Found'' else d))"
    unfolding a using h(2)[of d] by (simp add: response_model_simps)
  show "\<not> contains data ''error'' \<Longrightarrow>
           fst (app_get e (Get_profile u) w)
             = (case UserProfile_validate (coerce e) data of
                  None \<Rightarrow> Inl ResponseValidationError
                | Some m \<Rightarrow> Inr (Data (UserProfile_dump m)))"
    unfolding a using h(3) by (simp add: response_model_simps split: option.splits)
qed

lemma problems_route:
  assumes r: "fst (fetch_problem_list e u (remote w)) = Inr data"
  shows "contains data ''error'' \<longleftrightarrow>
           (\<exists>d. fst (app_get e (Get_problems u) w) = Inl (HTTPException 404 d))"
    and "getitem data ''error'' = Inr d \<Longrightarrow>
           fst (app_get e (Get_problems u) w)
             = Inl (HTTPException 404 (if d = PNone then PStr ''Not Found'' else d))"
    and "\<not> contains data ''error'' \<Longrightarrow>
           fst (app_get e (Get_problems u) w)
             = (case SolvedProblems_validate (coerce e) data of
                  None \<Rightarrow> Inl ResponseValidationError
                | Some m \<Rightarrow> Inr (Data (SolvedProblems_dump m)))"
proof -
  note h = guarded_outcome[OF problems_returned[OF r]]
  let ?V = "\<lambda>data. map_option SolvedProblems_dump (SolvedProblems_validate (coerce e) data)"
  have a: "fst (app_get e (Get_problems u) w)
             = response_model ?V (fst (get_solved_problems_endpoint e u w))"
    by (rule app_get_outcome(2))
  show "contains data ''error'' \<longleftrightarrow>
           (\<exists>d. fst (app_get e (Get_problems u) w) = Inl (HTTPException 404 d))"
  proof (cases "contains data ''error''")
    case True
    with h(1) obtain d where "fst (get_solved_problems_endpoint e u w) = Inl (HTTPException 404 d)"
      by blast
    with True show ?thesis unfolding a by (simp add: response_model_simps)
  next
    case False
    from h(3)[OF False] False show ?thesis
      unfolding a by (simp add: response_model_simps split: option.splits)
  qed
  show "getitem data ''error'' = Inr d \<Longrightarrow>
           fst (app_get e (Get_problems u) w)
             = Inl (HTTPException 404 (if d = PNone then PStr ''Not Found'' else d))"
    unfolding a using h(2)[of d] by (simp add: response_model_simps)
  show "\<not> contains data ''error'' \<Longrightarrow>
           fst (app_get e (Get_problems u) w)
             = (case SolvedProblems_validate (coerce e) data of
                  None \<Rightarrow> Inl ResponseValidationError
                | Some m \<Rightarrow> Inr (Data (SolvedProblems_dump m)))"
    unfolding a using h(3) by (simp add: response_model_simps split: option.splits)
qed

lemma dump_no_error:
  "\<not> contains (UserProfile_dump p) ''error''"
  "\<not> contains (SolvedProblems_dump sp) ''error''"
  by (simp_all add: contains_def UserProfile_dump_def SolvedProblems_dump_def)


lemma stats_route:
  assumes r: "fst (get_gfg_data e u (remote w)) = Inr data" and f: "query_format q = Inr f"
  shows "contains data ''error'' \<longleftrightarrow>
           (\<exists>d. fst (app_get e (Get_stats u q) w) = Inl (HTTPException 404 d))"
    and "getitem data ''error'' = Inr d \<Longrightarrow>
           fst (app_get e (Get_stats u q) w)
             = Inl (HTTPException 404 (if d = PNone then PStr ''Not Found'' else d))"
    and "\<not> contains data ''error'' \<Longrightarrow> f = ''json'' \<Longrightarrow>
           fst (app_get e (Get_stats u q) w) = Inr (Data data)"
    and "\<not> contains data ''error'' \<Longrightarrow> f = ''svg'' \<Longrightarrow>
           fst (app_get e (Get_stats u q) w)
             = Inr (Resp \<lparr>content = generate_stats_svg e data,
                          media_type = ''image/svg+xml'',
                          headers = [(''Cache-Control'', ''public, max-age=14400'')]\<rparr>)"
    and "fst (app_get e (Get_stats u q) w) = Inl x \<Longrightarrow> \<exists>d. x = HTTPException 404 d"
proof -
  note h = guarded_outcome[OF stats_returned[OF r, of f]]
  have a: "fst (app_get e (Get_stats u q) w) = fst (get_user_stats_endpoint e u f w)"
    using f by (rule app_get_outcome(3))
  show "contains data ''error'' \<longleftrightarrow>
           (\<exists>d. fst (app_get e (Get_stats u q) w) = Inl (HTTPException 404 d))"
    unfolding a by (rule h(1))
  show "getitem data ''error'' = Inr d \<Longrightarrow>
           fst (app_get e (Get_stats u q) w)
             = Inl (HTTPException 404 (if d = PNone then PStr ''Not Found'' else d))"
    unfolding a by (rule h(2))
  show "\<not> contains data ''error'' \<Longrightarrow> f = ''json'' \<Longrightarrow>
           fst (app_get e (Get_stats u q) w) = Inr (Data data)"
    unfolding a using h(3) by simp
  show "\<not> contains data ''error'' \<Longrightarrow> f = ''svg'' \<Longrightarrow>
           fst (app_get e (Get_stats u q) w)
             = Inr (Resp \<lparr>content = generate_stats_svg e data,
                          media_type = ''image/svg+xml'',
                          headers = [(''Cache-Control'', ''public, max-age=14400'')]\<rparr>)"
    unfolding a using h(3) by (simp add: svg_response_def)
  show "fst (app_get e (Get_stats u q) w) = Inl x \<Longrightarrow> \<exists>d. x = HTTPException 404 d"
    unfolding a by (rule h(4))
qed

lemma http_get_data:
  assumes "path_param u"
  shows "http_get e (''/profile/'' @ u) q w = app_get e (Get_profile u) w"
    and "http_get e (''/stats/'' @ u) q w = app_get e (Get_stats u q) w"
    and "http_get e (''/problems/'' @ u) q w = app_get e (Get_problems u) w"
  unfolding http_get_def route_of_data[OF assms] by (rule refl)+

subsection \<open>Error results and the 404\<close>

text \<open>
  C1, as the code has it. Four requests at which the claim fails. The problems route is
  handed a dict with no key \<^verbatim>\<open>error\<close> that lacks fields of \<^verbatim>\<open>SolvedProblems\<close>: the
  answer is not the dict but \<^verbatim>\<open>ResponseValidationError\<close>, status 500. The profile route
  is handed a dict with the user name only: the body is not that dict but the ten fields
  of \<^verbatim>\<open>UserProfile\<close> with their defaults. The profile route is handed an error whose
  value is \<^verbatim>\<open>None\<close>: the detail of the 404 is \<^verbatim>\<open>Not Found\<close>, not that value. The
  scraper call of the stats route raises: the exception leaves the handler, status 500.
\<close>

theorem data_routes_counterexample:
  "fst (fetch_problem_list (demo_env\<lparr>fetch_problem_list := demo_fetch alice_stats\<rparr>) ''alice''
          (remote demo_world)) = Inr alice_stats
   \<and> \<not> contains alice_stats ''error''
   \<and> fst (http_get (demo_env\<lparr>fetch_problem_list := demo_fetch alice_stats\<rparr>)
            ''/problems/alice'' None demo_world) = Inl ResponseValidationError
   \<and> status_code (Inl ResponseValidationError) = 500
   \<and> fst (http_get (demo_env\<lparr>fetch_user_profile := (\<lambda>name n. (Inr [(''userName'', PStr name)], n))\<rparr>)
            ''/profile/alice'' None demo_world)
       = Inr (Data [(''userName'', PStr ''alice''), (''fullName'', PStr []),
                    (''designation'', PStr []), (''codingScore'', PInt 0),
                    (''problemsSolved'', PInt 0), (''instituteRank'', PInt 0),
                    (''articlesPublished'', PInt 0), (''potdStreak'', PInt 0),
                    (''longestStreak'', PInt 0), (''potdsSolved'', PInt 0)])
   \<and> getitem [(''error'', PNone)] ''error'' = Inr PNone
   \<and> fst (http_get (demo_env\<lparr>fetch_user_profile := (\<lambda>name n. (Inr [(''error'', PNone)], n))\<rparr>)
            ''/profile/alice'' None demo_world) = Inl (HTTPException 404 (PStr ''Not Found''))
   \<and> fst (http_get (demo_env\<lparr>get_gfg_data := (\<lambda>name n. (Inl (Error ''TimeoutError''), n))\<rparr>)
            ''/stats/alice'' None demo_world) = Inl (Error ''TimeoutError'')
   \<and> status_code (Inl (Error ''TimeoutError'')) = 500"
proof -
  have pa: "path_param ''alice''" by (simp add: path_param_def)
  have r: "route_of ''/profile/alice'' None = Get_profile ''alice''"
    "route_of ''/stats/alice'' None = Get_stats ''alice'' None"
    "route_of ''/problems/alice'' None = Get_problems ''alice''"
    using route_of_data[OF pa, of None] by simp_all
  have 1: "fst (fetch_problem_list (demo_env\<lparr>fetch_problem_list := demo_fetch alice_stats\<rparr>) ''alice''
          (remote demo_world)) = Inr alice_stats"
    by (simp add: demo_fetch_def)
  have 2: "\<not> contains alice_stats ''error''" "\<not> contains alice_stats ''Problems''"
    by (simp_all add: contains_def alice_stats_def)
  have 3: "fst (http_get (demo_env\<lparr>fetch_problem_list := demo_fetch alice_stats\<rparr>)
            ''/problems/alice'' None demo_world) = Inl ResponseValidationError"
    unfolding http_get_def r
    using problems_route(3)[OF 1 2(1)] SolvedProblems_validate_required[of alice_stats] 2(2)
    by (simp del: app_get.simps)
  have 4: "status_code (Inl ResponseValidationError) = 500"
    "status_code (Inl (Error ''TimeoutError'')) = 500"
    by (simp_all add: status_code_def)
  have 5: "fst (http_get (demo_env\<lparr>fetch_user_profile := (\<lambda>name n. (Inr [(''userName'', PStr name)], n))\<rparr>)
            ''/profile/alice'' None demo_world)
       = Inr (Data [(''userName'', PStr ''alice''), (''fullName'', PStr []),
                    (''designation'', PStr []), (''codingScore'', PInt 0),
                    (''problemsSolved'', PInt 0), (''instituteRank'', PInt 0),
                    (''articlesPublished'', PInt 0), (''potdStreak'', PInt 0),
                    (''longestStreak'', PInt 0), (''potdsSolved'', PInt 0)])"
    unfolding http_get_def r
    by (simp add: app_get_outcome(1) profile_outcome response_model_simps contains_def
          UserProfile_validate_def required_def optional_def as_str_def UserProfile_init_def
          or_default_def UserProfile_dump_def del: app_get.simps)
  have 6: "getitem [(''error'', PNone)] ''error'' = Inr PNone"
    by (simp add: getitem_def)
  have 7: "fst (http_get (demo_env\<lparr>fetch_user_profile := (\<lambda>name n. (Inr [(''error'', PNone)], n))\<rparr>)
            ''/profile/alice'' None demo_world) = Inl (HTTPException 404 (PStr ''Not Found''))"
    unfolding http_get_def r
    by (simp add: app_get_outcome(1) profile_outcome response_model_simps contains_def
          raise_not_found_def getitem_def not_found_exception_def del: app_get.simps)
  have 8: "fst (http_get (demo_env\<lparr>get_gfg_data := (\<lambda>name n. (Inl (Error ''TimeoutError''), n))\<rparr>)
            ''/stats/alice'' None demo_world) = Inl (Error ''TimeoutError'')"
    unfolding http_get_def r
    by (simp add: stats_route_default stats_outcome del: app_get.simps)
  from 1 2(1) 3 4 5 6 7 8 show ?thesis by blast
qed

text \<open>
  C1, amended. For every user name that a path can carry and each of the three data
  routes, when the awaited scraper call hands back a dict: the answer is the 404 raised by
  the handler exactly when the dict has the key \<^verbatim>\<open>error\<close>; its detail is the value
  under that key, with \<^verbatim>\<open>Not Found\<close> in the place of \<^verbatim>\<open>None\<close>; without that key the
  handler returns the fetched dict (for the stats route with format \<^verbatim>\<open>svg\<close>, the card),
  and the handler raises nothing but that 404. What the stats route returns is the body.
  What the profile and the problems handler return is validated against the response
  model first: the body is the JSON object of the validated instance, which is the
  fetched dict when that is exactly such an object, and the answer is
  \<^verbatim>\<open>ResponseValidationError\<close> when the dict does not validate, as when it lacks a
  field that has no default. When the scraper call raises, the exception leaves the
  handler and the route as it is.
\<close>

theorem data_routes_404_iff_error:
  assumes pp: "path_param u"
  shows
  "(\<forall>data. fst (fetch_user_profile e u (remote w)) = Inr data \<longrightarrow>
       (contains data ''error'' \<longleftrightarrow>
          (\<exists>d. fst (http_get e (''/profile/'' @ u) q w) = Inl (HTTPException 404 d)))
     \<and> (\<forall>d. getitem data ''error'' = Inr d \<longrightarrow>
          fst (http_get e (''/profile/'' @ u) q w)
            = Inl (HTTPException 404 (if d = PNone then PStr ''Not Found'' else d)))
     \<and> (\<not> contains data ''error'' \<longrightarrow>
          fst (get_user_profile_endpoint e u w) = Inr (Data data)
          \<and> fst (http_get e (''/profile/'' @ u) q w)
              = (case UserProfile_validate (coerce e) data of
                   None \<Rightarrow> Inl ResponseValidationError
                 | Some m \<Rightarrow> Inr (Data (UserProfile_dump m))))
     \<and> (\<forall>m. data = UserProfile_dump m \<longrightarrow>
          fst (http_get e (''/profile/'' @ u) q w) = Inr (Data data))
     \<and> (\<not> contains data ''error'' \<and> \<not> contains data ''userName'' \<longrightarrow>
          fst (http_get e (''/profile/'' @ u) q w) = Inl ResponseValidationError)
     \<and> (\<forall>x. fst (get_user_profile_endpoint e u w) = Inl x \<longrightarrow> (\<exists>d. x = HTTPException 404 d)))
   \<and> (\<forall>x. fst (fetch_user_profile e u (remote w)) = Inl x \<longrightarrow>
         fst (get_user_profile_endpoint e u w) = Inl x
         \<and> fst (http_get e (''/profile/'' @ u) q w) = Inl x)
   \<and> (\<forall>data f. fst (get_gfg_data e u (remote w)) = Inr data \<and> query_format q = Inr f \<longrightarrow>
       (contains data ''error'' \<longleftrightarrow>
          (\<exists>d. fst (http_get e (''/stats/'' @ u) q w) = Inl (HTTPException 404 d)))
     \<and> (\<forall>d. getitem data ''error'' = Inr d \<longrightarrow>
          fst (http_get e (''/stats/'' @ u) q w)
            = Inl (HTTPException 404 (if d = PNone then PStr ''Not Found'' else d)))
     \<and> (\<not> contains data ''error'' \<and> f = ''json'' \<longrightarrow>
          fst (http_get e (''/stats/'' @ u) q w) = Inr (Data data))
     \<and> (\<not> contains data ''error'' \<and> f = ''svg'' \<longrightarrow>
          fst (http_get e (''/stats/'' @ u) q w)
            = Inr (Resp \<lparr>content = generate_stats_svg e data,
                         media_type = ''image/svg+xml'',
                         headers = [(''Cache-Control'', ''public, max-age=14400'')]\<rparr>))
     \<and> (\<forall>x. fst (http_get e (''/stats/'' @ u) q w) = Inl x \<longrightarrow> (\<exists>d. x = HTTPException 404 d)))
   \<and> (\<forall>x f. fst (get_gfg_data e u (remote w)) = Inl x \<and> query_format q = Inr f \<longrightarrow>
         fst (http_get e (''/stats/'' @ u) q w) = Inl x)
   \<and> (\<forall>data. fst (fetch_problem_list e u (remote w)) = Inr data \<longrightarrow>
       (contains data ''error'' \<longleftrightarrow>
          (\<exists>d. fst (http_get e (''/problems/'' @ u) q w) = Inl (HTTPException 404 d)))
     \<and> (\<forall>d. getitem data ''error'' = Inr d \<longrightarrow>
          fst (http_get e (''/problems/'' @ u) q w)
            = Inl (HTTPException 404 (if d = PNone then PStr ''Not Found'' else d)))
     \<and> (\<not> contains data ''error'' \<longrightarrow>
          fst (get_solved_problems_endpoint e u w) = Inr (Data data)
          \<and> fst (http_get e (''/problems/'' @ u) q w)
              = (case SolvedProblems_validate (coerce e) data of
                   None \<Rightarrow> Inl ResponseValidationError
                 | Some m \<Rightarrow> Inr (Data (SolvedProblems_dump m))))
     \<and> (\<forall>m. data = SolvedProblems_dump m \<longrightarrow>
          fst (http_get e (''/problems/'' @ u) q w) = Inr (Data data))
     \<and> (\<not> contains data ''error''
          \<and> (\<not> contains data ''userName'' \<or> \<not> contains data ''problemsByDifficulty''
               \<or> \<not> contains data ''Problems'') \<longrightarrow>
          fst (http_get e (''/problems/'' @ u) q w) = Inl ResponseValidationError)
     \<and> (\<forall>x. fst (get_solved_problems_endpoint e u w) = Inl x \<longrightarrow>
          (\<exists>d. x = HTTPException 404 d)))
   \<and> (\<forall>x. fst (fetch_problem_list e u (remote w)) = Inl x \<longrightarrow>
         fst (get_solved_problems_endpoint e u w) = Inl x
         \<and> fst (http_get e (''/problems/'' @ u) q w) = Inl x)"
proof -
  note g = http_get_data[OF pp]
  have profile: "(contains data ''error'' \<longleftrightarrow>
          (\<exists>d. fst (http_get e (''/profile/'' @ u) q w) = Inl (HTTPException 404 d)))
     \<and> (\<forall>d. getitem data ''error'' = Inr d \<longrightarrow>
          fst (http_get e (''/profile/'' @ u) q w)
            = Inl (HTTPException 404 (if d = PNone then PStr ''Not Found'' else d)))
     \<and> (\<not> contains data ''error'' \<longrightarrow>
          fst (get_user_profile_endpoint e u w) = Inr (Data data)
          \<and> fst (http_get e (''/profile/'' @ u) q w)
              = (case UserProfile_validate (coerce e) data of
                   None \<Rightarrow> Inl ResponseValidationError
                 | Some m \<Rightarrow> Inr (Data (UserProfile_dump m))))
     \<and> (\<forall>m. data = UserProfile_dump m \<longrightarrow>
          fst (http_get e (''/profile/'' @ u) q w) = Inr (Data data))
     \<and> (\<not> contains data ''error'' \<and> \<not> contains data ''userName'' \<longrightarrow>
          fst (http_get e (''/profile/'' @ u) q w) = Inl ResponseValidationError)
     \<and> (\<forall>x. fst (get_user_profile_endpoint e u w) = Inl x \<longrightarrow> (\<exists>d. x = HTTPException 404 d))"
    if r: "fst (fetch_user_profile e u (remote w)) = Inr data" for data
  proof -
    note h = guarded_outcome[OF profile_returned[OF r]]
    note p = profile_route[OF r]
    have 4: "fst (app_get e (Get_profile u) w) = Inr (Data data)"
      if "data = UserProfile_dump m" for m
      using p(3) dump_no_error(1)[of m] that
      by (simp add: UserProfile_validate_dump del: app_get.simps)
    have 5: "fst (app_get e (Get_profile u) w) = Inl ResponseValidationError"
      if "\<not> contains data ''error''" "\<not> contains data ''userName''"
      using p(3)[OF that(1)] UserProfile_validate_required[OF that(2)]
      by (simp del: app_get.simps)
    show ?thesis
      unfolding g using p(1) p(2) p(3) h(3) h(4) 4 5 by blast
  qed
  have profile_raised: "fst (get_user_profile_endpoint e u w) = Inl x
         \<and> fst (http_get e (''/profile/'' @ u) q w) = Inl x"
    if "fst (fetch_user_profile e u (remote w)) = Inl x" for x
    unfolding g using that raised_passes(1)[OF that] by (simp add: profile_outcome del: app_get.simps)
  have stats: "(contains data ''error'' \<longleftrightarrow>
          (\<exists>d. fst (http_get e (''/stats/'' @ u) q w) = Inl (HTTPException 404 d)))
     \<and> (\<forall>d. getitem data ''error'' = Inr d \<longrightarrow>
          fst (http_get e (''/stats/'' @ u) q w)
            = Inl (HTTPException 404 (if d = PNone then PStr ''Not Found'' else d)))
     \<and> (\<not> contains data ''error'' \<and> f = ''json'' \<longrightarrow>
          fst (http_get e (''/stats/'' @ u) q w) = Inr (Data data))
     \<and> (\<not> contains data ''error'' \<and> f = ''svg'' \<longrightarrow>
          fst (http_get e (''/stats/'' @ u) q w)
            = Inr (Resp \<lparr>content = generate_stats_svg e data,
                         media_type = ''image/svg+xml'',
                         headers = [(''Cache-Control'', ''public, max-age=14400'')]\<rparr>))
     \<and> (\<forall>x. fst (http_get e (''/stats/'' @ u) q w) = Inl x \<longrightarrow> (\<exists>d. x = HTTPException 404 d))"
    if r: "fst (get_gfg_data e u (remote w)) = Inr data" and f: "query_format q = Inr f" for data f
    unfolding g using stats_route[OF r f] by blast
  have stats_raised: "fst (http_get e (''/stats/'' @ u) q w) = Inl x"
    if "fst (get_gfg_data e u (remote w)) = Inl x" "query_format q = Inr f" for x f
    unfolding g app_get_outcome(3)[OF that(2)] using that(1) by (rule raised_passes(3))
  have problems: "(contains data ''error'' \<longleftrightarrow>
          (\<exists>d. fst (http_get e (''/problems/'' @ u) q w) = Inl (HTTPException 404 d)))
     \<and> (\<forall>d. getitem data ''error'' = Inr d \<longrightarrow>
          fst (http_get e (''/problems/'' @ u) q w)
            = Inl (HTTPException 404 (if d = PNone then PStr ''Not Found'' else d)))
     \<and> (\<not> contains data ''error'' \<longrightarrow>
          fst (get_solved_problems_endpoint e u w) = Inr (Data data)
          \<and> fst (http_get e (''/problems/'' @ u) q w)
              = (case SolvedProblems_validate (coerce e) data of
                   None \<Rightarrow> Inl ResponseValidationError
                 | Some m \<Rightarrow> Inr (Data (SolvedProblems_dump m))))
     \<and> (\<forall>m. data = SolvedProblems_dump m \<longrightarrow>
          fst (http_get e (''/problems/'' @ u) q w) = Inr (Data data))
     \<and> (\<not> contains data ''error''
          \<and> (\<not> contains data ''userName'' \<or> \<not> contains data ''problemsByDifficulty''
               \<or> \<not> contains data ''Problems'') \<longrightarrow>
          fst (http_get e (''/problems/'' @ u) q w) = Inl ResponseValidationError)
     \<and> (\<forall>x. fst (get_solved_problems_endpoint e u w) = Inl x \<longrightarrow>
          (\<exists>d. x = HTTPException 404 d))"
    if r: "fst (fetch_problem_list e u (remote w)) = Inr data" for data
  proof -
    note h = guarded_outcome[OF problems_returned[OF r]]
    note p = problems_route[OF r]
    have 4: "fst (app_get e (Get_problems u) w) = Inr (Data data)"
      if "data = SolvedProblems_dump m" for m
      using p(3) dump_no_error(2)[of m] that
      by (simp add: SolvedProblems_validate_dump del: app_get.simps)
    have 5: "fst (app_get e (Get_problems u) w) = Inl ResponseValidationError"
      if "\<not> contains data ''error''"
         "\<not> contains data ''userName'' \<or> \<not> contains data ''problemsByDifficulty''
               \<or> \<not> contains data ''Problems''"
      using p(3)[OF that(1)] SolvedProblems_validate_required[OF that(2)]
      by (simp del: app_get.simps)
    show ?thesis
      unfolding g using p(1) p(2) p(3) h(3) h(4) 4 5 by blast
  qed
  have problems_raised: "fst (get_solved_problems_endpoint e u w) = Inl x
         \<and> fst (http_get e (''/problems/'' @ u) q w) = Inl x"
    if "fst (fetch_problem_list e u (remote w)) = Inl x" for x
    unfolding g using that raised_passes(2)[OF that] by (simp add: problems_outcome del: app_get.simps)
  show ?thesis
    apply (rule conjI, rule allI, rule impI, erule profile)
    apply (rule conjI, rule allI, rule impI, erule profile_raised)
    apply (rule conjI, rule allI, rule allI, rule impI, erule conjE, erule (1) stats)
    apply (rule conjI, rule allI, rule allI, rule impI, erule conjE, erule (1) stats_raised)
    apply (rule conjI, rule allI, rule impI, erule problems)
    apply (rule allI, rule impI, erule problems_raised)
    done
qed

theorem data_routes_404_iff_error_witness:
  "path_param ''alice''
   \<and> fst (fetch_user_profile demo_env ''alice'' (remote demo_world))
       = Inr (UserProfile_dump alice_profile)
   \<and> fst (http_get demo_env ''/profile/alice'' None demo_world)
       = Inr (Data (UserProfile_dump alice_profile))
   \<and> fst (get_gfg_data demo_env ''alice'' (remote demo_world)) = Inr alice_stats
   \<and> query_format None = Inr ''json''
   \<and> \<not> contains alice_stats ''error''
   \<and> fst (http_get demo_env ''/stats/alice'' None demo_world) = Inr (Data alice_stats)
   \<and> fst (fetch_problem_list demo_env ''alice'' (remote demo_world))
       = Inr (SolvedProblems_dump alice_problems)
   \<and> fst (http_get demo_env ''/problems/alice'' None demo_world)
       = Inr (Data (SolvedProblems_dump alice_problems))
   \<and> path_param ''bob''
   \<and> fst (fetch_user_profile demo_env ''bob'' (remote demo_world)) = Inr not_found
   \<and> getitem not_found ''error'' = Inr (PStr ''Profile Not Found'')
   \<and> fst (http_get demo_env ''/profile/bob'' None demo_world)
       = Inl (HTTPException 404 (PStr ''Profile Not Found''))"
proof -
  have pa: "path_param ''alice''" and pb: "path_param ''bob''"
    by (simp_all add: path_param_def)
  have a: "fst (fetch_user_profile demo_env ''alice'' (remote demo_world))
       = Inr (UserProfile_dump alice_profile)"
    and b: "fst (get_gfg_data demo_env ''alice'' (remote demo_world)) = Inr alice_stats"
    and c: "fst (fetch_problem_list demo_env ''alice'' (remote demo_world))
       = Inr (SolvedProblems_dump alice_problems)"
    and d: "fst (fetch_user_profile demo_env ''bob'' (remote demo_world)) = Inr not_found"
    by (simp_all add: demo_env_def demo_world_def demo_fetch_def)
  have q: "query_format None = Inr ''json''"
    by (simp add: query_format_def format_default_def)
  have n: "\<not> contains alice_stats ''error''"
    and g: "getitem not_found ''error'' = Inr (PStr ''Profile Not Found'')"
    by (simp_all add: contains_def getitem_def alice_stats_def not_found_def)
  note alice = data_routes_404_iff_error[OF pa, of demo_env demo_world None]
  note bob = data_routes_404_iff_error[OF pb, of demo_env demo_world None]
  note profile_alice = alice[THEN conjunct1, rule_format, OF a]
  note stats_alice =
    alice[THEN conjunct2, THEN conjunct2, THEN conjunct1, rule_format, OF conjI[OF b q]]
  note problems_alice =
    alice[THEN conjunct2, THEN conjunct2, THEN conjunct2, THEN conjunct2, THEN conjunct1,
          rule_format, OF c]
  note profile_bob = bob[THEN conjunct1, rule_format, OF d]
  have 1: "fst (http_get demo_env (''/profile/'' @ ''alice'') None demo_world)
       = Inr (Data (UserProfile_dump alice_profile))"
    by (rule profile_alice[THEN conjunct2, THEN conjunct2, THEN conjunct2, THEN conjunct1,
          rule_format, OF refl])
  have 2: "fst (http_get demo_env (''/stats/'' @ ''alice'') None demo_world)
       = Inr (Data alice_stats)"
    by (rule stats_alice[THEN conjunct2, THEN conjunct2, THEN conjunct1, rule_format,
          OF conjI[OF n refl]])
  have 3: "fst (http_get demo_env (''/problems/'' @ ''alice'') None demo_world)
       = Inr (Data (SolvedProblems_dump alice_problems))"
    by (rule problems_alice[THEN conjunct2, THEN conjunct2, THEN conjunct2, THEN conjunct1,
          rule_format, OF refl])
  have 4: "fst (http_get demo_env (''/profile/'' @ ''bob'') None demo_world)
       = Inl (HTTPException 404 (if PStr ''Profile Not Found'' = PNone then PStr ''Not Found''
                                  else PStr ''Profile Not Found''))"
    by (rule profile_bob[THEN conjunct2, THEN conjunct1, rule_format, OF g])
  have bob404: "fst (http_get demo_env ''/profile/bob'' None demo_world)
       = Inl (HTTPException 404 (PStr ''Profile Not Found''))"
    using 4 by simp
  have s1: "fst (http_get demo_env ''/profile/alice'' None demo_world)
       = Inr (Data (UserProfile_dump alice_profile))" using 1 by simp
  have s2: "fst (http_get demo_env ''/stats/alice'' None demo_world) = Inr (Data alice_stats)"
    using 2 by simp
  have s3: "fst (http_get demo_env ''/problems/alice'' None demo_world)
       = Inr (Data (SolvedProblems_dump alice_problems))" using 3 by simp
  show ?thesis
    by (intro conjI) (rule pa a s1 b q n s2 c s3 pb d g bob404)+
qed

end
